theory Spec2Isabelle
  imports Main "HOL-Library.Log_Nat"
begin

section \<open>Python values\<close>

text \<open>
  A Python \<^verbatim>\<open>str\<close> is a sequence of Unicode code points, so it is a list of naturals;
  \<open>str\<close> turns an ASCII literal into one, and the accented letters of the source's
  literals are written by code point.
\<close>

type_synonym pystr = "nat list"

definition str :: "string \<Rightarrow> pystr" where
  "str cs = map of_char cs"

datatype pyerror =
    ValueError pystr
  | ZeroDivisionError
  | OverflowError
  | KeyError pystr
  | AttributeError pystr

definition and_then :: "pyerror + 'a \<Rightarrow> ('a \<Rightarrow> pyerror + 'b) \<Rightarrow> pyerror + 'b" where
  "and_then m f = (case m of Inl e \<Rightarrow> Inl e | Inr x \<Rightarrow> f x)"

subsection \<open>Floats\<close>

text \<open>
  A Python \<^verbatim>\<open>float\<close> is an IEEE 754 binary64 number. A finite one is modelled by the
  rational it denotes, and every arithmetic operation computes the exact result and
  rounds it with \<open>fl\<close>: to the nearest number with a 53-bit significand, ties to the
  even significand, with gradual underflow below \<open>2 powi (- 1022)\<close>. Infinities,
  NaN and the sign of zero are not part of the model, and \<open>fl\<close> does not bound the
  exponent above: where \<open>fl\<close> gives a result of magnitude \<open>2 powi 1024\<close> or more, the
  float of the program is an infinity, and the model says nothing of what follows it.
  \<open>finite_float\<close> is the range in which model and program agree, and \<open>no_overflow\<close>
  says of a list of results that all of them are in it.
\<close>

type_synonym pyfloat = rat

definition ilog2 :: "rat \<Rightarrow> int" where
  "ilog2 x = (case quotient_of x of (p, q) \<Rightarrow>
     let d = bitlen p - bitlen q in if 2 powi d \<le> x then d else d - 1)"

definition round_half_even :: "rat \<Rightarrow> int" where
  "round_half_even x = (let f = \<lfloor>x\<rfloor>; d = x - of_int f in
     if d < 1 / 2 then f else if 1 / 2 < d then f + 1 else if even f then f else f + 1)"

definition fl :: "rat \<Rightarrow> pyfloat" where
  "fl x = (if x = 0 then 0 else
     let q = max (ilog2 \<bar>x\<bar> - 52) (- 1074)
     in of_int (round_half_even (x / 2 powi q)) * 2 powi q)"

definition is_float :: "rat \<Rightarrow> bool" where
  "is_float x \<longleftrightarrow> fl x = x"

definition finite_float :: "rat \<Rightarrow> bool" where
  "finite_float x \<longleftrightarrow> \<bar>x\<bar> < 2 powi 1024"

definition no_overflow :: "pyfloat list \<Rightarrow> bool" where
  "no_overflow xs = list_all finite_float xs"

text \<open>
  Where an int meets a float it is converted: to the nearest float \<open>float_of_int\<close>
  when that is in range, and the conversion raises \<^verbatim>\<open>OverflowError\<close> otherwise.
\<close>

definition float_of_int :: "int \<Rightarrow> pyfloat" where
  "float_of_int n = fl (of_int n)"

definition to_float :: "int \<Rightarrow> pyerror + pyfloat" where
  "to_float n = (if finite_float (float_of_int n) then Inr (float_of_int n) else Inl OverflowError)"

definition fadd :: "pyfloat \<Rightarrow> pyfloat \<Rightarrow> pyfloat" where
  "fadd x y = fl (x + y)"

definition fsub :: "pyfloat \<Rightarrow> pyfloat \<Rightarrow> pyfloat" where
  "fsub x y = fl (x - y)"

definition fmul :: "pyfloat \<Rightarrow> pyfloat \<Rightarrow> pyfloat" where
  "fmul x y = fl (x * y)"

definition fdiv :: "pyfloat \<Rightarrow> pyfloat \<Rightarrow> pyerror + pyfloat" where
  "fdiv x y = (if y = 0 then Inl ZeroDivisionError else Inr (fl (x / y)))"

text \<open>
  \<^verbatim>\<open>round(x, ndigits)\<close> on a float rounds the exact value of \<open>x\<close> to \<open>ndigits\<close>
  decimals, ties to even, and returns the float nearest to that decimal.
\<close>

definition py_round :: "pyfloat \<Rightarrow> nat \<Rightarrow> pyfloat" where
  "py_round x ndigits = fl (of_int (round_half_even (x * 10 ^ ndigits)) / 10 ^ ndigits)"

section \<open>TarifaConstants\<close>

record tarifa_constants =
  TE_ENEL_CE :: pyfloat
  TUSD_ENEL_CE :: pyfloat
  ICMS :: pyfloat
  PISCOF :: pyfloat

text \<open>The class attributes; a float literal denotes the float nearest to it.\<close>

definition TarifaConstants :: tarifa_constants where
  "TarifaConstants =
     \<lparr>TE_ENEL_CE = fl (27291 / 100000), TUSD_ENEL_CE = fl (44929 / 100000),
      ICMS = fl (2 / 10), PISCOF = fl (5 / 100)\<rparr>"

text \<open>
  The dictionary \<^verbatim>\<open>calculate_derived_rates\<close> returns always has the same five keys,
  read back by \<^verbatim>\<open>get_tarifas\<close> only: it is a record, the fields in the order of the keys
  \<^verbatim>\<open>'tarifa de aplicacao'\<close>, \<^verbatim>\<open>'tarifa fornecida'\<close>, \<^verbatim>\<open>'tarifa injetada compartilhada'\<close>,
  \<^verbatim>\<open>'tarifa injetada real'\<close>, \<^verbatim>\<open>'impostos nao compensaveis'\<close>.
\<close>

record derived_rates =
  tarifa_de_aplicacao :: pyfloat
  tarifa_fornecida :: pyfloat
  tarifa_injetada_compartilhada :: pyfloat
  tarifa_injetada_real :: pyfloat
  impostos_n_compoensaveis :: pyfloat

text \<open>The int literal \<^verbatim>\<open>1\<close> in \<^verbatim>\<open>1 - cls.ICMS\<close> converts to the float 1 exactly.\<close>

definition calculate_derived_rates :: "tarifa_constants \<Rightarrow> pyerror + derived_rates" where
  "calculate_derived_rates cls =
     (let aplicacao = fadd (TE_ENEL_CE cls) (TUSD_ENEL_CE cls) in
      and_then (fdiv aplicacao (fmul (fsub 1 (ICMS cls)) (fsub 1 (PISCOF cls)))) (\<lambda>q1.
      let fornecida = py_round q1 4 in
      and_then (fdiv (TE_ENEL_CE cls) (fmul (fsub 1 (ICMS cls)) (fsub 1 (PISCOF cls)))) (\<lambda>q2.
      and_then (fdiv (TUSD_ENEL_CE cls) (fsub 1 (PISCOF cls))) (\<lambda>q3.
      let compartilhada = fadd q2 q3;
          injetada_real = py_round compartilhada 4;
          impostos = fsub fornecida injetada_real
      in Inr \<lparr>tarifa_de_aplicacao = aplicacao,
              tarifa_fornecida = fornecida,
              tarifa_injetada_compartilhada = compartilhada,
              tarifa_injetada_real = injetada_real,
              impostos_n_compoensaveis = impostos\<rparr>))))"

text \<open>
  Every float \<^verbatim>\<open>calculate_derived_rates\<close> computes when no division fails, in the order
  of the source: the sum of the base rates, the two differences, their product, the
  quotient that is rounded to the supplied tariff and that tariff, the two quotients of
  the shared injected tariff and their sum, the real injected tariff, the difference.
\<close>

definition derived_rates_floats :: "tarifa_constants \<Rightarrow> pyfloat list" where
  "derived_rates_floats cls =
     [fadd (TE_ENEL_CE cls) (TUSD_ENEL_CE cls),
      fsub 1 (ICMS cls),
      fsub 1 (PISCOF cls),
      fmul (fsub 1 (ICMS cls)) (fsub 1 (PISCOF cls)),
      fl (fadd (TE_ENEL_CE cls) (TUSD_ENEL_CE cls) /
          fmul (fsub 1 (ICMS cls)) (fsub 1 (PISCOF cls))),
      py_round (fl (fadd (TE_ENEL_CE cls) (TUSD_ENEL_CE cls) /
                    fmul (fsub 1 (ICMS cls)) (fsub 1 (PISCOF cls)))) 4,
      fl (TE_ENEL_CE cls / fmul (fsub 1 (ICMS cls)) (fsub 1 (PISCOF cls))),
      fl (TUSD_ENEL_CE cls / fsub 1 (PISCOF cls)),
      fadd (fl (TE_ENEL_CE cls / fmul (fsub 1 (ICMS cls)) (fsub 1 (PISCOF cls))))
           (fl (TUSD_ENEL_CE cls / fsub 1 (PISCOF cls))),
      py_round (fadd (fl (TE_ENEL_CE cls / fmul (fsub 1 (ICMS cls)) (fsub 1 (PISCOF cls))))
                     (fl (TUSD_ENEL_CE cls / fsub 1 (PISCOF cls)))) 4,
      fsub (py_round (fl (fadd (TE_ENEL_CE cls) (TUSD_ENEL_CE cls) /
                          fmul (fsub 1 (ICMS cls)) (fsub 1 (PISCOF cls)))) 4)
           (py_round (fadd (fl (TE_ENEL_CE cls / fmul (fsub 1 (ICMS cls)) (fsub 1 (PISCOF cls))))
                           (fl (TUSD_ENEL_CE cls / fsub 1 (PISCOF cls)))) 4)]"

definition get_tarifas ::
  "tarifa_constants \<Rightarrow> pyerror + (pyfloat \<times> pyfloat \<times> pyfloat \<times> pyfloat)" where
  "get_tarifas self =
     and_then (calculate_derived_rates self) (\<lambda>tarifas.
       Inr (tarifa_fornecida tarifas, tarifa_injetada_compartilhada tarifas,
            impostos_n_compoensaveis tarifas, tarifa_injetada_real tarifas))"

section \<open>FinancialCalculator\<close>

text \<open>A bill is a Python dictionary from strings to floats.\<close>

type_synonym bill = "pystr \<rightharpoonup> pyfloat"

definition getitem :: "bill \<Rightarrow> pystr \<Rightarrow> pyerror + pyfloat" where
  "getitem d k = (case d k of None \<Rightarrow> Inl (KeyError k) | Some v \<Rightarrow> Inr v)"

definition valor_em_energia :: pystr where
  "valor_em_energia = str ''valor em energia''"

definition custo_minimo :: pystr where
  "custo_minimo = str ''custo m'' @ [237] @ str ''nimo''"

definition iluminacao_publica :: pystr where
  "iluminacao_publica = str ''ilumina'' @ [231, 227] @ str ''o p'' @ [250] @ str ''blica''"

definition impostos :: pystr where
  "impostos = str ''impostos''"

definition total :: pystr where
  "total = str ''total''"

definition Trifasico :: pystr where
  "Trifasico = str ''Trif'' @ [225] @ str ''sico''"

definition Monofasico :: pystr where
  "Monofasico = str ''Monof'' @ [225] @ str ''sico''"

definition Bifasico :: pystr where
  "Bifasico = str ''Bif'' @ [225] @ str ''sico''"

definition custo_invalido :: pystr where
  "custo_invalido = str ''Custo de disponibilidade inv'' @ [225] @ str ''lido.''"

text \<open>
  The dictionary literal both calculators return: the keys \<^verbatim>\<open>'valor em energia'\<close>,
  \<^verbatim>\<open>'custo minimo'\<close>, \<^verbatim>\<open>'iluminacao publica'\<close>, \<^verbatim>\<open>'impostos'\<close> and \<^verbatim>\<open>'total'\<close>, in this
  order.
\<close>

definition mk_bill :: "pyfloat \<Rightarrow> pyfloat \<Rightarrow> pyfloat \<Rightarrow> pyfloat \<Rightarrow> pyfloat \<Rightarrow> bill" where
  "mk_bill energy_cost min_cost public_ilumination_cost taxes total_bill =
     [valor_em_energia \<mapsto> energy_cost,
      custo_minimo \<mapsto> min_cost,
      iluminacao_publica \<mapsto> public_ilumination_cost,
      impostos \<mapsto> taxes,
      total \<mapsto> total_bill]"

text \<open>
  The base allowance as the documentation gives it: 100 for a three-phase connection,
  50 for a two-phase one, 30 for a single-phase one.
\<close>

definition base_allowance :: "pystr \<Rightarrow> int" where
  "base_allowance connection =
     (if connection = Trifasico then 100 else if connection = Bifasico then 50 else 30)"

definition recognised :: "pystr \<Rightarrow> bool" where
  "recognised connection \<longleftrightarrow>
     connection = Trifasico \<or> connection = Bifasico \<or> connection = Monofasico"

text \<open>
  \<^verbatim>\<open>n_ucs\<close> is a Python int: \<^verbatim>\<open>n_ucs * 100\<close> and \<^verbatim>\<open>100 * n_ucs\<close> are exact, and the
  product is converted to a float where it meets one, which raises \<^verbatim>\<open>OverflowError\<close>
  when it is out of range: first in the energy cost, before the connection type is
  looked at.
\<close>

definition calculate_bill_before ::
  "tarifa_constants \<Rightarrow> pyfloat \<Rightarrow> pystr \<Rightarrow> pyfloat \<Rightarrow> int \<Rightarrow> pyerror + bill" where
  "calculate_bill_before tariff_data pic disponibility_cost energy_consumption n_ucs =
     and_then (get_tarifas tariff_data)
       (\<lambda>(tarifas_fornecida, tarifa_injetada, tarifas_impostos, tarifa_injetada_real).
     and_then (to_float (n_ucs * 100)) (\<lambda>hundreds.
     let energy_cost = fmul (fsub energy_consumption hundreds) tarifa_injetada_real in
     and_then
       (if disponibility_cost = Trifasico then
          and_then (to_float (100 * n_ucs)) (\<lambda>allowance. Inr (fmul allowance tarifas_fornecida))
        else if disponibility_cost = Monofasico then
          and_then (to_float (30 * n_ucs)) (\<lambda>allowance. Inr (fmul allowance tarifas_fornecida))
        else if disponibility_cost = Bifasico then
          and_then (to_float (50 * n_ucs)) (\<lambda>allowance. Inr (fmul allowance tarifas_fornecida))
        else Inl (ValueError custo_invalido)) (\<lambda>min_cost.
     let public_ilumination_cost = pic in
     and_then (to_float (n_ucs * 100)) (\<lambda>hundreds2.
     let taxes = fmul (fsub energy_consumption hundreds2) tarifas_impostos;
         total_bill = fadd (fadd (fadd energy_cost min_cost) public_ilumination_cost) taxes
     in Inr (mk_bill energy_cost min_cost public_ilumination_cost taxes total_bill)))))"

text \<open>The divisor of \<^verbatim>\<open>bill_discount/100\<close> is the literal 100.\<close>

definition calculate_bill_after ::
  "tarifa_constants \<Rightarrow> pyfloat \<Rightarrow> pystr \<Rightarrow> pyfloat \<Rightarrow> int \<Rightarrow> pyfloat \<Rightarrow> pyerror + bill" where
  "calculate_bill_after tariff_data pic disponibility_cost energy_consumption n_ucs bill_discount =
     and_then (calculate_bill_before tariff_data pic disponibility_cost energy_consumption n_ucs)
       (\<lambda>enel_bill.
     and_then (getitem enel_bill impostos) (\<lambda>taxes.
     and_then (getitem enel_bill valor_em_energia) (\<lambda>energy_cost.
     and_then (getitem enel_bill custo_minimo) (\<lambda>min_cost.
     and_then (getitem enel_bill iluminacao_publica) (\<lambda>public_ilumination_cost.
     and_then (fdiv bill_discount 100) (\<lambda>d.
     let energy_cost_discounted = fmul energy_cost (fsub 1 d);
         total_bill_discounted =
           fadd (fadd (fadd taxes public_ilumination_cost) min_cost) energy_cost_discounted
     in Inr (mk_bill energy_cost min_cost public_ilumination_cost taxes
               total_bill_discounted)))))))"

text \<open>
  For statements about one call: what a call returned (nothing when it raised), the
  value a returned bill has under a key, and closeness of two numbers within a
  tolerance.
\<close>

definition returned :: "pyerror + 'a \<Rightarrow> 'a option" where
  "returned res = (case res of Inl e \<Rightarrow> None | Inr x \<Rightarrow> Some x)"

definition result_item :: "pyerror + bill \<Rightarrow> pystr \<Rightarrow> pyfloat option" where
  "result_item res k = (case res of Inl e \<Rightarrow> None | Inr b \<Rightarrow> b k)"

definition approx :: "rat \<Rightarrow> rat \<Rightarrow> rat \<Rightarrow> bool" where
  "approx tol x y \<longleftrightarrow> \<bar>x - y\<bar> \<le> tol"

section \<open>TextFormatter\<close>

subsection \<open>format_money_br\<close>

text \<open>
  The format specification \<^verbatim>\<open>,.2f\<close> of Python rounds the exact value of the float to
  two decimals, ties to even, writes the integer part in decimal with a comma before
  every group of three digits, a point, the two decimals, and a minus sign in front
  when the float is negative.
\<close>

fun digits :: "nat \<Rightarrow> pystr" where
  "digits n = (if n < 10 then [48 + n] else digits (n div 10) @ [48 + n mod 10])"

fun group3 :: "nat \<Rightarrow> pystr \<Rightarrow> pystr" where
  "group3 sep ds =
     (if length ds \<le> 3 then ds
      else group3 sep (take (length ds - 3) ds) @ [sep] @ drop (length ds - 3) ds)"

definition format_comma_2f :: "pyfloat \<Rightarrow> pystr" where
  "format_comma_2f v =
     (let c = nat (round_half_even (\<bar>v\<bar> * 100))
      in (if v < 0 then str ''-'' else []) @ group3 44 (digits (c div 100)) @ str ''.'' @
         [48 + (c mod 100) div 10, 48 + c mod 10])"

text \<open>\<^verbatim>\<open>s.replace(old, new)\<close> where \<open>old\<close> and \<open>new\<close> are one character each.\<close>

definition replace1 :: "string \<Rightarrow> string \<Rightarrow> pystr \<Rightarrow> pystr" where
  "replace1 old new s = map (\<lambda>c. if [c] = str old then hd (str new) else c) s"

definition format_money_br :: "pyfloat \<Rightarrow> pystr" where
  "format_money_br v =
     replace1 ''X'' ''.'' (replace1 ''.'' '','' (replace1 '','' ''X'' (format_comma_2f v)))"

text \<open>
  What the documentation asks of the formatter, written directly: groups of three
  digits separated by points, a comma, two decimals, the sign in front.
\<close>

definition money_br_spec :: "pyfloat \<Rightarrow> pystr" where
  "money_br_spec v =
     (let c = nat (round_half_even (\<bar>v\<bar> * 100))
      in (if v < 0 then str ''-'' else []) @ group3 46 (digits (c div 100)) @ str '','' @
         [48 + (c mod 100) div 10, 48 + c mod 10])"

subsection \<open>The presentation\<close>

text \<open>
  Modelled from the spec: the shapes, text frames, paragraphs and runs of the
  presentation library (python-pptx), which is not part of the repository. A shape
  has a type and may have a text frame; a text frame has a word-wrap flag and
  paragraphs; a paragraph has an alignment, a font and runs; a run has a text, a font
  and the \<^verbatim>\<open>alignment\<close> attribute that \<^verbatim>\<open>format_text\<close> sets. Setting the text of a
  paragraph replaces its runs by one run with that text; the text of a shape is the
  text of its paragraphs, joined by line feeds. \<open>Pt\<close> converts points to the library's
  length unit.
\<close>

datatype pp_align = LEFT | CENTER | RIGHT | JUSTIFY

datatype mso_shape_type = AUTO_SHAPE | CHART | GROUP | PICTURE | PLACEHOLDER | TABLE | TEXT_BOX

definition Pt :: "int \<Rightarrow> int" where
  "Pt points = points * 12700"

record run =
  run_text :: pystr
  run_font_name :: "pystr option"
  run_font_size :: "int option"
  run_alignment :: "pp_align option"

record para =
  par_alignment :: "pp_align option"
  par_font_name :: "pystr option"
  par_font_size :: "int option"
  runs :: "run list"

record text_frame =
  word_wrap :: "bool option"
  paragraphs :: "para list"

record shape =
  shape_type :: mso_shape_type
  text_frame :: "text_frame option"

definition has_text_frame :: "shape \<Rightarrow> bool" where
  "has_text_frame sh \<longleftrightarrow> text_frame sh \<noteq> None"

definition set_par_text :: "para \<Rightarrow> pystr \<Rightarrow> para" where
  "set_par_text p t =
     p\<lparr>runs := [\<lparr>run_text = t, run_font_name = None, run_font_size = None,
                   run_alignment = None\<rparr>]\<rparr>"

definition add_paragraph :: para where
  "add_paragraph =
     \<lparr>par_alignment = None, par_font_name = None, par_font_size = None, runs = []\<rparr>"

definition par_text :: "para \<Rightarrow> pystr" where
  "par_text p = concat (map run_text (runs p))"

fun join :: "pystr \<Rightarrow> pystr list \<Rightarrow> pystr" where
  "join sep [] = []"
| "join sep [x] = x"
| "join sep (x # y # ys) = x @ sep @ join sep (y # ys)"

definition frame_text :: "text_frame \<Rightarrow> pystr" where
  "frame_text tf = join [10] (map par_text (paragraphs tf))"

subsection \<open>format_text and update_text_shape\<close>

definition format_text :: "run \<Rightarrow> pystr \<Rightarrow> pystr \<Rightarrow> int \<Rightarrow> bool \<Rightarrow> run" where
  "format_text r text font_name font_size align_center =
     (let r1 = r\<lparr>run_text := text, run_font_name := Some font_name,
                  run_font_size := Some (Pt font_size)\<rparr>
      in if align_center then r1\<lparr>run_alignment := Some CENTER\<rparr> else r1)"

text \<open>
  The body of the two branches of \<^verbatim>\<open>update_text_shape\<close> that write into an existing
  paragraph: the first run is formatted when there is one, the paragraph gets the
  text and the font otherwise.
\<close>

definition update_paragraph :: "para \<Rightarrow> pystr \<Rightarrow> pystr \<Rightarrow> int \<Rightarrow> bool \<Rightarrow> para" where
  "update_paragraph p0 text font fsize center_align =
     (let p = (if center_align then p0\<lparr>par_alignment := Some CENTER\<rparr> else p0)
      in case runs p of
           r # rs \<Rightarrow> p\<lparr>runs := format_text r text font fsize center_align # rs\<rparr>
         | [] \<Rightarrow>
             (let p1 = (set_par_text p text)\<lparr>par_font_name := Some font,
                                             par_font_size := Some (Pt fsize)\<rparr>
              in if center_align then p1\<lparr>par_alignment := Some CENTER\<rparr> else p1))"

definition new_paragraph :: "pystr \<Rightarrow> pystr \<Rightarrow> int \<Rightarrow> bool \<Rightarrow> para" where
  "new_paragraph text font fsize center_align =
     (let p1 = (set_par_text add_paragraph text)\<lparr>par_font_name := Some font,
                                                  par_font_size := Some (Pt fsize)\<rparr>
      in if center_align then p1\<lparr>par_alignment := Some CENTER\<rparr> else p1)"

definition update_text_shape ::
  "shape \<Rightarrow> pystr \<Rightarrow> pystr \<Rightarrow> int \<Rightarrow> pystr option \<Rightarrow> pystr option \<Rightarrow> int option \<Rightarrow> bool
     \<Rightarrow> pyerror + shape" where
  "update_text_shape sh text1 font1 size1 text2 font2_opt size2_opt center_align =
     (let font2 = (case font2_opt of None \<Rightarrow> font1 | Some f \<Rightarrow> f);
          size2 = (case size2_opt of None \<Rightarrow> size1 | Some s \<Rightarrow> s)
      in case text_frame sh of
           None \<Rightarrow> Inl (AttributeError (str ''text_frame''))
         | Some tf0 \<Rightarrow>
             (let tf = tf0\<lparr>word_wrap := Some True\<rparr>;
                  ps1 = (case paragraphs tf of
                           [] \<Rightarrow> []
                         | p # ps \<Rightarrow> update_paragraph p text1 font1 size1 center_align # ps);
                  ps2 = (case text2 of
                           None \<Rightarrow> ps1
                         | Some t2 \<Rightarrow>
                             if t2 = [] then ps1
                             else if 1 < length ps1 then
                               ps1[1 := update_paragraph (ps1 ! 1) t2 font2 size2 center_align]
                             else ps1 @ [new_paragraph t2 font2 size2 center_align])
              in Inr (sh\<lparr>text_frame := Some (tf\<lparr>paragraphs := ps2\<rparr>)\<rparr>)))"

section \<open>PowerPointUpdater\<close>

subsection \<open>Strings\<close>

text \<open>The code points for which \<^verbatim>\<open>str.isspace\<close> holds, which \<^verbatim>\<open>str.strip\<close> removes.\<close>

definition isspace :: "nat \<Rightarrow> bool" where
  "isspace c \<longleftrightarrow> c \<in> set [9, 10, 11, 12, 13, 28, 29, 30, 31, 32, 133, 160, 5760,
     8192, 8193, 8194, 8195, 8196, 8197, 8198, 8199, 8200, 8201, 8202,
     8232, 8233, 8239, 8287, 12288]"

definition strip :: "pystr \<Rightarrow> pystr" where
  "strip s = rev (dropWhile isspace (rev (dropWhile isspace s)))"

definition startswith :: "pystr \<Rightarrow> string \<Rightarrow> bool" where
  "startswith text prefix \<longleftrightarrow> take (length prefix) text = str prefix"

subsection \<open>The branches of \_update\_text\_shape\<close>

text \<open>
  One constructor for each \<^verbatim>\<open>startswith\<close> test of \<^verbatim>\<open>_update_text_shape\<close>, in the order
  of the source. The first test is an \<^verbatim>\<open>if\<close> of its own; the others form one
  \<^verbatim>\<open>if\<close>/\<^verbatim>\<open>elif\<close> chain.
\<close>

datatype branch =
    B_CLIENTE | B_DATA | B_XX | B_YY | B_AAAA | B_AAAB | B_BBBB | B_aBBa | B_CCCC
  | B_DDDD | B_DDDB | B_EEEE | B_EEEB | B_FFFF | B_GGGG | B_HHHH | B_IIII | B_CDCD | B_CICI

definition first_if :: "pystr \<Rightarrow> branch list" where
  "first_if text = (if startswith text ''CLIENTE: PPPPPP'' then [B_CLIENTE] else [])"

definition elif_chain :: "pystr \<Rightarrow> branch list" where
  "elif_chain text =
     (if startswith text ''DATA: DDDDDDD'' then [B_DATA]
      else if startswith text ''XX%'' then [B_XX]
      else if startswith text ''YY%'' then [B_YY]
      else if startswith text ''R$ AAAA'' then [B_AAAA]
      else if startswith text ''R$ AAAB'' then [B_AAAB]
      else if startswith text ''R$ BBBB'' then [B_BBBB]
      else if startswith text '' R$ aBBa'' then [B_aBBa]
      else if startswith text ''R$ CCCC'' then [B_CCCC]
      else if startswith text ''R$ DDDD'' then [B_DDDD]
      else if startswith text ''R$ DDDB'' then [B_DDDB]
      else if startswith text ''R$ EEEE'' then [B_EEEE]
      else if startswith text ''R$ EEEB'' then [B_EEEB]
      else if startswith text ''R$ FFFF'' then [B_FFFF]
      else if startswith text ''R$ GGGG'' then [B_GGGG]
      else if startswith text ''R$ HHHH'' then [B_HHHH]
      else if startswith text ''R$ IIII'' then [B_IIII]
      else if startswith text ''R$ CDCD'' then [B_CDCD]
      else if startswith text ''R$ CICI'' then [B_CICI]
      else [])"

definition branches :: "pystr \<Rightarrow> branch list" where
  "branches text = first_if text @ elif_chain text"

text \<open>
  The arguments a branch passes to \<^verbatim>\<open>update_text_shape\<close>: \<^verbatim>\<open>text1\<close>, \<^verbatim>\<open>font1\<close>, \<^verbatim>\<open>size1\<close>
  and \<^verbatim>\<open>center_align\<close> (true when the call leaves it out); no branch passes a second
  text. Evaluating them reads the bills, which raises \<^verbatim>\<open>KeyError\<close> on a missing key.
  The date of the day and the conversion of the discount to a string come from the
  Python library: they are the fields of the environment.
\<close>

record environment =
  today :: pystr
  str_of_float :: "pyfloat \<Rightarrow> pystr"

record call =
  text1 :: pystr
  font1 :: pystr
  size1 :: int
  center_align :: bool

definition money :: "pyfloat \<Rightarrow> pystr \<Rightarrow> int \<Rightarrow> pyerror + call" where
  "money v font fsize =
     Inr \<lparr>text1 = str ''R$ '' @ format_money_br v, font1 = font, size1 = fsize,
          center_align = True\<rparr>"

definition savings :: "bill \<Rightarrow> bill \<Rightarrow> pyerror + pyfloat" where
  "savings conta_antes conta_depois =
     and_then (getitem conta_antes total) (\<lambda>a.
     and_then (getitem conta_depois total) (\<lambda>d. Inr (fsub a d)))"

fun branch_call ::
  "environment \<Rightarrow> pystr \<Rightarrow> pyfloat \<Rightarrow> bill \<Rightarrow> bill \<Rightarrow> branch \<Rightarrow> pyerror + call" where
  "branch_call env client discount conta_antes conta_depois B_CLIENTE =
     Inr \<lparr>text1 = str ''CLIENTE: '' @ client, font1 = str ''Arial'', size1 = 24,
          center_align = False\<rparr>"
| "branch_call env client discount conta_antes conta_depois B_DATA =
     Inr \<lparr>text1 = str ''DATA: '' @ today env, font1 = str ''Arial'', size1 = 24,
          center_align = False\<rparr>"
| "branch_call env client discount conta_antes conta_depois B_XX =
     Inr \<lparr>text1 = str_of_float env discount @ str ''%'', font1 = str ''Inter Bold'',
          size1 = 20, center_align = True\<rparr>"
| "branch_call env client discount conta_antes conta_depois B_YY =
     Inr \<lparr>text1 = str_of_float env discount @ str ''%'', font1 = str ''Inter Bold'',
          size1 = 21, center_align = True\<rparr>"
| "branch_call env client discount conta_antes conta_depois B_AAAA =
     and_then (getitem conta_antes total) (\<lambda>v. money v (str ''Inter Bold'') 26)"
| "branch_call env client discount conta_antes conta_depois B_AAAB =
     and_then (getitem conta_antes total) (\<lambda>v. money v (str ''Inter Bold'') 21)"
| "branch_call env client discount conta_antes conta_depois B_BBBB =
     and_then (getitem conta_antes custo_minimo) (\<lambda>v. money v (str ''Inter Bold'') 21)"
| "branch_call env client discount conta_antes conta_depois B_aBBa =
     and_then (getitem conta_antes custo_minimo) (\<lambda>v. money v (str ''Inter'') 21)"
| "branch_call env client discount conta_antes conta_depois B_CCCC =
     and_then (getitem conta_depois valor_em_energia) (\<lambda>v. money v (str ''Inter Bold'') 21)"
| "branch_call env client discount conta_antes conta_depois B_DDDD =
     and_then (savings conta_antes conta_depois) (\<lambda>s. money s (str ''Inter Bold'') 21)"
| "branch_call env client discount conta_antes conta_depois B_DDDB =
     and_then (savings conta_antes conta_depois) (\<lambda>s. money s (str ''Inter Bold'') 21)"
| "branch_call env client discount conta_antes conta_depois B_EEEE =
     and_then (savings conta_antes conta_depois) (\<lambda>s. money s (str ''Inter Bold'') 37)"
| "branch_call env client discount conta_antes conta_depois B_EEEB =
     and_then (savings conta_antes conta_depois) (\<lambda>s. money s (str ''Inter Bold'') 21)"
| "branch_call env client discount conta_antes conta_depois B_FFFF =
     and_then (savings conta_antes conta_depois)
       (\<lambda>s. money (fmul 12 s) (str ''Inter Bold'') 37)"
| "branch_call env client discount conta_antes conta_depois B_GGGG =
     and_then (savings conta_antes conta_depois)
       (\<lambda>s. money (fmul (float_of_int (12 * 5)) s) (str ''Inter Bold'') 37)"
| "branch_call env client discount conta_antes conta_depois B_HHHH =
     and_then (getitem conta_antes valor_em_energia) (\<lambda>v. money v (str ''Inter'') 21)"
| "branch_call env client discount conta_antes conta_depois B_IIII =
     and_then (getitem conta_antes iluminacao_publica) (\<lambda>v. money v (str ''Inter'') 21)"
| "branch_call env client discount conta_antes conta_depois B_CDCD =
     and_then (getitem conta_antes custo_minimo) (\<lambda>v. money v (str ''Inter'') 21)"
| "branch_call env client discount conta_antes conta_depois B_CICI =
     and_then (getitem conta_antes impostos) (\<lambda>v. money v (str ''Inter'') 21)"

subsection \<open>\_update\_text\_shape, \_update\_slide and update\_presentation\<close>

text \<open>
  The body of the \<^verbatim>\<open>try\<close>: the branches taken run in order on the shape, which is
  mutated in place, so that an exception leaves the shape as it was when it was
  raised. The result is the shape and the exception, if any.
\<close>

fun run_branches ::
  "environment \<Rightarrow> pystr \<Rightarrow> pyfloat \<Rightarrow> bill \<Rightarrow> bill \<Rightarrow> shape \<Rightarrow> branch list
     \<Rightarrow> shape \<times> pyerror option" where
  "run_branches env client discount conta_antes conta_depois sh [] = (sh, None)"
| "run_branches env client discount conta_antes conta_depois sh (b # bs) =
     (case branch_call env client discount conta_antes conta_depois b of
        Inl e \<Rightarrow> (sh, Some e)
      | Inr c \<Rightarrow>
          (case update_text_shape sh (text1 c) (font1 c) (size1 c) None None None
                  (center_align c) of
             Inl e \<Rightarrow> (sh, Some e)
           | Inr sh' \<Rightarrow> run_branches env client discount conta_antes conta_depois sh' bs))"

text \<open>
  The \<^verbatim>\<open>except\<close> clause logs the first twenty characters of the text and the
  exception, and returns.
\<close>

datatype log_entry = Error_updating_text_shape pystr pyerror

definition updater_update_text_shape ::
  "environment \<Rightarrow> shape \<Rightarrow> pystr \<Rightarrow> pystr \<Rightarrow> pyfloat \<Rightarrow> bill \<Rightarrow> bill
     \<Rightarrow> shape \<times> log_entry list" where
  "updater_update_text_shape env sh text client discount conta_antes conta_depois =
     (case run_branches env client discount conta_antes conta_depois sh (branches text) of
        (sh', None) \<Rightarrow> (sh', [])
      | (sh', Some e) \<Rightarrow> (sh', [Error_updating_text_shape (take 20 text) e]))"

text \<open>One iteration of the loop of \<^verbatim>\<open>_update_slide\<close>.\<close>

definition update_shape ::
  "environment \<Rightarrow> pystr \<Rightarrow> pyfloat \<Rightarrow> bill \<Rightarrow> bill \<Rightarrow> shape \<Rightarrow> shape \<times> log_entry list" where
  "update_shape env client discount conta_antes conta_depois sh =
     (if shape_type sh = TEXT_BOX then
        (case text_frame sh of
           Some tf \<Rightarrow>
             updater_update_text_shape env sh (strip (frame_text tf)) client discount
               conta_antes conta_depois
         | None \<Rightarrow> (sh, []))
      else (sh, []))"

fun updater_update_slide ::
  "environment \<Rightarrow> shape list \<Rightarrow> pystr \<Rightarrow> pyfloat \<Rightarrow> bill \<Rightarrow> bill
     \<Rightarrow> shape list \<times> log_entry list" where
  "updater_update_slide env [] client discount conta_antes conta_depois = ([], [])"
| "updater_update_slide env (sh # shapes) client discount conta_antes conta_depois =
     (let (sh', log1) = update_shape env client discount conta_antes conta_depois sh;
          (shapes', log2) =
            updater_update_slide env shapes client discount conta_antes conta_depois
      in (sh' # shapes', log1 @ log2))"

section \<open>Rounding to the nearest float\<close>

text \<open>
  The exponent \<open>ilog2\<close> finds is the binary exponent of its argument, so \<open>fl\<close> fixes
  every number with a significand of at most 53 bits, returns only such numbers, keeps
  the sign, does not cross a power of two, and is off by half a unit in the last place
  at most.
\<close>

lemma bitlen_powi:
  assumes "0 < p"
  shows "(2::rat) powi (bitlen p - 1) \<le> of_int p" "of_int p < (2::rat) powi (bitlen p)"
proof -
  have b: "1 \<le> bitlen p" using assms by (simp add: bitlen_alt_def)
  have "(2::int) ^ nat (bitlen p - 1) \<le> p" "p < 2 ^ nat (bitlen p)"
    using bitlen_bounds[OF assms] by auto
  then have "(of_int ((2::int) ^ nat (bitlen p - 1)) :: rat) \<le> of_int p"
    "(of_int p :: rat) < of_int (2 ^ nat (bitlen p))"
    by (simp_all only: of_int_le_iff of_int_less_iff)
  then show "(2::rat) powi (bitlen p - 1) \<le> of_int p" "of_int p < (2::rat) powi (bitlen p)"
    using b by (simp_all add: power_int_def)
qed

lemma ilog2_bounds:
  assumes "0 < x"
  shows "2 powi (ilog2 x) \<le> x" "x < 2 powi (ilog2 x + 1)"
proof -
  obtain p q where pq: "quotient_of x = (p, q)" by (cases "quotient_of x")
  have q: "0 < q" using pq quotient_of_denom_pos by blast
  have x: "x = of_int p / of_int q" using pq quotient_of_div by blast
  have p: "0 < p" using assms q x by (simp add: zero_less_divide_iff)
  let ?d = "bitlen p - bitlen q"
  note P = bitlen_powi[OF p] and Q = bitlen_powi[OF q]
  have qr: "(0::rat) < of_int q" using q by simp
  have lo: "2 powi (?d - 1) \<le> x"
  proof -
    have "(2::rat) powi (?d - 1) * of_int q \<le> 2 powi (?d - 1) * 2 powi (bitlen q)"
      using Q(2) by (simp add: less_imp_le)
    also have "\<dots> = 2 powi (bitlen p - 1)" by (simp add: power_int_add[symmetric])
    also have "\<dots> \<le> of_int p" by (rule P(1))
    finally show ?thesis using qr by (simp add: x pos_le_divide_eq)
  qed
  have hi: "x < 2 powi (?d + 1)"
  proof -
    have "of_int p < (2::rat) powi (bitlen p)" by (rule P(2))
    also have "\<dots> = 2 powi (?d + 1) * 2 powi (bitlen q - 1)" by (simp add: power_int_add[symmetric])
    also have "\<dots> \<le> 2 powi (?d + 1) * of_int q" using Q(1) by simp
    finally show ?thesis using qr by (simp add: x pos_divide_less_eq)
  qed
  show "2 powi (ilog2 x) \<le> x" using lo by (simp add: ilog2_def pq Let_def)
  show "x < 2 powi (ilog2 x + 1)" using hi by (auto simp add: ilog2_def pq Let_def not_le)
qed

lemma ilog2_ge:
  assumes "2 powi k \<le> x"
  shows "k \<le> ilog2 x"
proof (rule ccontr)
  assume "\<not> k \<le> ilog2 x"
  then have "ilog2 x + 1 \<le> k" by simp
  then have "(2::rat) powi (ilog2 x + 1) \<le> 2 powi k" by (simp add: power_int_increasing)
  moreover have "0 < x" using assms by (rule less_le_trans[rotated]) simp
  ultimately show False using assms ilog2_bounds(2)[of x] by simp
qed

lemma ilog2_le:
  assumes "0 < x" "x < 2 powi k"
  shows "ilog2 x < k"
proof (rule ccontr)
  assume "\<not> ilog2 x < k"
  then have "(2::rat) powi k \<le> 2 powi (ilog2 x)" by (simp add: power_int_increasing)
  then show False using assms ilog2_bounds(1)[of x] by simp
qed

lemma rhe_of_int: "round_half_even (of_int n) = n"
  by (simp add: round_half_even_def)

lemma rhe_floor: "\<lfloor>x\<rfloor> \<le> round_half_even x" "round_half_even x \<le> \<lfloor>x\<rfloor> + 1"
  by (simp_all add: round_half_even_def Let_def)

lemma rhe_ge:
  assumes "of_int n \<le> x"
  shows "n \<le> round_half_even x"
proof -
  have "n \<le> \<lfloor>x\<rfloor>" using assms by (simp add: le_floor_iff)
  then show ?thesis using rhe_floor(1)[of x] by simp
qed

lemma rhe_le:
  assumes "x \<le> of_int n"
  shows "round_half_even x \<le> n"
proof (cases "x = of_int n")
  case True
  then show ?thesis by (simp add: rhe_of_int)
next
  case False
  then have "x < of_int n" using assms by simp
  then have "\<lfloor>x\<rfloor> < n" by (simp add: floor_less_iff)
  then show ?thesis using rhe_floor(2)[of x] by simp
qed

lemma rhe_err: "\<bar>of_int (round_half_even x) - x\<bar> \<le> 1 / 2"
proof -
  have "of_int \<lfloor>x\<rfloor> \<le> x" "x < of_int \<lfloor>x\<rfloor> + 1" by linarith+
  then show ?thesis by (auto simp add: round_half_even_def Let_def)
qed

lemma rhe_uminus: "round_half_even (- x) = - round_half_even x"
proof (cases "x = of_int \<lfloor>x\<rfloor>")
  case True
  then obtain n where "x = of_int n" ..
  then show ?thesis by (simp add: rhe_of_int flip: of_int_minus)
next
  case False
  then have c: "\<lceil>x\<rceil> = \<lfloor>x\<rfloor> + 1" by (simp add: ceiling_altdef)
  have f: "\<lfloor>- x\<rfloor> = - \<lfloor>x\<rfloor> - 1" using c by (simp add: ceiling_def)
  show ?thesis
    unfolding round_half_even_def Let_def f by auto
qed

lemma fl_uminus: "fl (- x) = - fl x"
  by (simp add: fl_def Let_def rhe_uminus)

lemma powi_split:
  assumes "q \<le> e"
  shows "(2::rat) powi e = of_int (2 ^ nat (e - q)) * 2 powi q"
proof -
  have "(2::rat) powi e = 2 powi (e - q) * 2 powi q" by (simp flip: power_int_add)
  also have "(2::rat) powi (e - q) = of_int (2 ^ nat (e - q))"
    using assms by (simp add: power_int_def)
  finally show ?thesis .
qed

lemma fl_ge_pow:
  assumes k: "- 1074 \<le> k" and x: "2 powi k \<le> x"
  shows "2 powi k \<le> fl x"
proof -
  have x0: "0 < x" using x by (rule less_le_trans[rotated]) simp
  define e where "e = ilog2 \<bar>x\<bar>"
  define q where "q = max (e - 52) (- 1074)"
  have ke: "k \<le> e" using ilog2_ge[of k x] x x0 by (simp add: e_def)
  have qe: "q \<le> e" using ke k by (simp add: q_def)
  have ex: "2 powi e \<le> x" using ilog2_bounds(1)[of "\<bar>x\<bar>"] x0 by (simp add: e_def)
  have "of_int (2 ^ nat (e - q)) = 2 powi e / (2::rat) powi q"
    using powi_split[OF qe] by simp
  also have "\<dots> \<le> x / 2 powi q" using ex by (simp add: divide_right_mono)
  finally have "2 ^ nat (e - q) \<le> round_half_even (x / 2 powi q)" by (rule rhe_ge)
  then have "(of_int (2 ^ nat (e - q)) :: rat) \<le> of_int (round_half_even (x / 2 powi q))"
    by (simp only: of_int_le_iff)
  then have "of_int (2 ^ nat (e - q)) * 2 powi q \<le> of_int (round_half_even (x / 2 powi q)) * (2::rat) powi q"
    by (simp add: mult_right_mono)
  then have "2 powi e \<le> fl x"
    using x0 powi_split[OF qe] by (simp add: fl_def Let_def e_def q_def)
  moreover have "(2::rat) powi k \<le> 2 powi e" using ke by (simp add: power_int_increasing)
  ultimately show ?thesis by simp
qed

lemma fl_le_neg_pow:
  assumes "- 1074 \<le> k" and "x \<le> - (2 powi k)"
  shows "fl x \<le> - (2 powi k)"
  using fl_ge_pow[of k "- x"] assms by (simp add: fl_uminus)

lemma fl_fix:
  assumes x: "x = of_int m * 2 powi k" and m: "\<bar>m\<bar> \<le> 2 ^ 53" and k: "- 1074 \<le> k"
  shows "fl x = x"
proof (cases "x = 0")
  case True
  then show ?thesis by (simp add: fl_def)
next
  case False
  define e where "e = ilog2 \<bar>x\<bar>"
  define q where "q = max (e - 52) (- 1074)"
  have ax: "\<bar>x\<bar> = of_int \<bar>m\<bar> * 2 powi k" by (simp add: x abs_mult)
  have "\<exists>n. x = of_int n * 2 powi q"
  proof (cases "\<bar>m\<bar> = 2 ^ 53")
    case True
    then have "\<bar>x\<bar> = 2 powi (53 + k)" using ax by (simp add: power_int_add)
    then have "53 + k \<le> e" "e < 53 + k + 1"
      using ilog2_ge[of "53 + k" "\<bar>x\<bar>"] ilog2_le[of "\<bar>x\<bar>" "53 + k + 1"] False
      by (simp_all add: e_def power_int_strict_increasing)
    then have q: "q = k + 1" using k by (simp add: q_def)
    have "x = of_int (m div 2) * 2 powi (k + 1)"
    proof -
      have "even m" using True by (metis abs_power2 even_abs_add_iff even_add even_numeral even_power zero_less_numeral)
      then have "m = 2 * (m div 2)" by simp
      then have "x = of_int (2 * (m div 2)) * 2 powi k" using x by simp
      then show ?thesis by (simp add: power_int_add)
    qed
    then show ?thesis using q by blast
  next
    case False
    then have "\<bar>m\<bar> < 2 ^ 53" using m by simp
    then have "(of_int \<bar>m\<bar> :: rat) < of_int (2 ^ 53)" by (simp only: of_int_less_iff)
    then have "\<bar>x\<bar> < 2 powi 53 * 2 powi k" using ax by simp
    then have "\<bar>x\<bar> < 2 powi (53 + k)" by (simp add: power_int_add)
    then have "e < 53 + k" using ilog2_le[of "\<bar>x\<bar>" "53 + k"] \<open>x \<noteq> 0\<close> by (simp add: e_def)
    then have qk: "q \<le> k" using k by (simp add: q_def)
    have "x = of_int (m * 2 ^ nat (k - q)) * 2 powi q"
      using powi_split[OF qk] x by simp
    then show ?thesis by blast
  qed
  then obtain n where n: "x = of_int n * 2 powi q" ..
  have "fl x = of_int (round_half_even (x / 2 powi q)) * 2 powi q"
    using \<open>x \<noteq> 0\<close> by (simp add: fl_def Let_def e_def q_def)
  moreover have "x / 2 powi q = of_int n" by (simp add: n)
  ultimately show ?thesis using n by (simp only: rhe_of_int)
qed

lemma fl_repr:
  "\<exists>m k. fl x = of_int m * 2 powi k \<and> \<bar>m\<bar> \<le> 2 ^ 53 \<and> - 1074 \<le> k"
proof (cases "x = 0")
  case True
  have "fl x = of_int 0 * 2 powi 0" using True by (simp add: fl_def)
  then show ?thesis by (intro exI[of _ 0] exI[of _ "0::int"]) simp
next
  case False
  define e where "e = ilog2 \<bar>x\<bar>"
  define q where "q = max (e - 52) (- 1074)"
  define m where "m = round_half_even (x / 2 powi q)"
  have fx: "fl x = of_int m * 2 powi q"
    using False by (simp add: fl_def Let_def e_def q_def m_def)
  have "\<bar>x\<bar> < 2 powi (e + 1)" using ilog2_bounds(2)[of "\<bar>x\<bar>"] False by (simp add: e_def)
  also have "(2::rat) powi (e + 1) \<le> 2 powi (53 + q)"
    by (intro power_int_increasing) (simp_all add: q_def)
  finally have "\<bar>x\<bar> < 2 powi 53 * 2 powi q" by (simp add: power_int_add)
  then have "\<bar>x\<bar> / 2 powi q < 2 powi 53"
    by (simp add: pos_divide_less_eq)
  moreover define z where "z = x / 2 powi q"
  ultimately have "\<bar>z\<bar> < 2 powi 53"
    by (simp add: abs_divide)
  then have "z \<le> of_int (2 ^ 53)" "of_int (- (2 ^ 53)) \<le> z"
    by simp_all
  then have "x / 2 powi q \<le> of_int (2 ^ 53)" "of_int (- (2 ^ 53)) \<le> x / 2 powi q"
    by (simp_all only: z_def)
  note zb = this
  have "m \<le> 2 ^ 53" unfolding m_def using zb(1) by (rule rhe_le)
  moreover have "- (2 ^ 53) \<le> m" unfolding m_def using zb(2) by (rule rhe_ge)
  ultimately have "\<bar>m\<bar> \<le> 2 ^ 53" by simp
  moreover have "- 1074 \<le> q" by (simp add: q_def)
  ultimately show ?thesis using fx by blast
qed

lemma fl_idem: "fl (fl x) = fl x"
  using fl_repr[of x] fl_fix by blast

lemma fl_grid:
  assumes fx: "fl x = x" and kx: "2 powi k \<le> \<bar>x\<bar>" and k: "- 1022 \<le> k"
  shows "\<exists>n. x = of_int n * 2 powi (k - 52)"
proof -
  have x0: "x \<noteq> 0" using kx by (metis abs_zero not_le zero_less_power_int zero_less_numeral)
  define e where "e = ilog2 \<bar>x\<bar>"
  define q where "q = max (e - 52) (- 1074)"
  define m where "m = round_half_even (x / 2 powi q)"
  have "x = of_int m * 2 powi q"
    using x0 fx by (simp add: fl_def Let_def e_def q_def m_def)
  moreover have "k \<le> e" using ilog2_ge[OF kx] by (simp add: e_def)
  then have "k - 52 \<le> q" by (simp add: q_def)
  ultimately have "x = of_int (m * 2 ^ nat (q - (k - 52))) * 2 powi (k - 52)"
    using powi_split[of "k - 52" q] by simp
  then show ?thesis by blast
qed

lemma fl_err: "\<bar>fl x - x\<bar> \<le> 2 powi (- 53) * \<bar>x\<bar> + 2 powi (- 1075)"
proof (cases "x = 0")
  case True
  then show ?thesis by (simp add: fl_def)
next
  case False
  define e where "e = ilog2 \<bar>x\<bar>"
  define q where "q = max (e - 52) (- 1074)"
  define m where "m = round_half_even (x / 2 powi q)"
  have fx: "fl x = of_int m * 2 powi q"
    using False by (simp add: fl_def Let_def e_def q_def m_def)
  have "\<bar>of_int m - x / 2 powi q\<bar> \<le> 1 / 2" unfolding m_def by (rule rhe_err)
  then have "\<bar>of_int m - x / 2 powi q\<bar> * 2 powi q \<le> 1 / 2 * 2 powi q"
    by (intro mult_right_mono) simp_all
  moreover have "\<bar>of_int m - x / 2 powi q\<bar> * 2 powi q = \<bar>fl x - x\<bar>"
  proof -
    have "\<bar>of_int m - x / 2 powi q\<bar> * 2 powi q = \<bar>(of_int m - x / 2 powi q) * 2 powi q\<bar>"
      by (simp add: abs_mult)
    also have "(of_int m - x / 2 powi q) * 2 powi q = fl x - x"
      by (simp add: fx left_diff_distrib)
    finally show ?thesis .
  qed
  ultimately have h: "\<bar>fl x - x\<bar> \<le> 2 powi (q - 1)"
    by (simp add: power_int_diff)
  have ex: "2 powi e \<le> \<bar>x\<bar>" using ilog2_bounds(1)[of "\<bar>x\<bar>"] False by (simp add: e_def)
  show ?thesis
  proof (cases "e - 52 \<le> - 1074")
    case True
    then have "q = - 1074" by (simp add: q_def)
    then have "\<bar>fl x - x\<bar> \<le> 2 powi (- 1075)" using h by simp
    moreover have "0 \<le> 2 powi (- 53) * \<bar>x\<bar>" by simp
    ultimately show ?thesis by linarith
  next
    case False
    then have "q = e - 52" by (simp add: q_def)
    moreover have "(2::rat) powi (e - 52 - 1) = 2 powi (- 53) * 2 powi e"
      using power_int_add[of "2::rat" "- 53" e] by (simp add: algebra_simps)
    ultimately have "\<bar>fl x - x\<bar> \<le> 2 powi (- 53) * 2 powi e" using h by simp
    also have "\<dots> \<le> 2 powi (- 53) * \<bar>x\<bar>" using ex by (intro mult_left_mono) simp_all
    finally show ?thesis by (simp add: add_increasing2)
  qed
qed


lemma fl_0: "fl 0 = 0"
  by (simp add: fl_def)

lemma fl_nonneg:
  assumes "0 \<le> x"
  shows "0 \<le> fl x"
proof -
  have "0 \<le> round_half_even (x / 2 powi q)" for q
    by (rule rhe_ge) (simp add: assms)
  then show ?thesis by (simp add: fl_def Let_def)
qed

lemma fl_le_pow:
  assumes k: "- 1074 \<le> k" and x: "0 \<le> x" "x \<le> 2 powi k"
  shows "fl x \<le> 2 powi k"
proof (cases "x = 0 \<or> x = 2 powi k")
  case True
  then show ?thesis
  proof
    assume "x = 0"
    then show ?thesis by (simp add: fl_0)
  next
    assume "x = 2 powi k"
    then show ?thesis using fl_fix[of x 1 k] k by simp
  qed
next
  case False
  then have x0: "0 < x" and xk: "x < 2 powi k" using x by simp_all
  define e where "e = ilog2 \<bar>x\<bar>"
  define q where "q = max (e - 52) (- 1074)"
  have "e < k" using ilog2_le[of x k] x0 xk by (simp add: e_def)
  then have qk: "q \<le> k" using k by (simp add: q_def)
  have "x / 2 powi q \<le> 2 powi k / 2 powi q" using x(2) by (simp add: divide_right_mono)
  also have "\<dots> = of_int (2 ^ nat (k - q))" using powi_split[OF qk] by simp
  finally have "round_half_even (x / 2 powi q) \<le> 2 ^ nat (k - q)" by (rule rhe_le)
  then have "(of_int (round_half_even (x / 2 powi q)) :: rat) \<le> of_int (2 ^ nat (k - q))"
    by (simp only: of_int_le_iff)
  then have "of_int (round_half_even (x / 2 powi q)) * (2::rat) powi q
      \<le> of_int (2 ^ nat (k - q)) * 2 powi q"
    by (simp add: mult_right_mono)
  then show ?thesis
    using x0 powi_split[OF qk] by (simp add: fl_def Let_def e_def q_def)
qed

lemma fl_abs_le_pow:
  assumes "- 1074 \<le> k" "\<bar>x\<bar> \<le> 2 powi k"
  shows "\<bar>fl x\<bar> \<le> 2 powi k"
proof (cases "0 \<le> x")
  case True
  then show ?thesis using fl_le_pow[of k x] fl_nonneg[of x] assms by simp
next
  case False
  then have "0 \<le> - x" by simp
  then show ?thesis
    using fl_le_pow[of k "- x"] fl_nonneg[of "- x"] assms False by (simp add: fl_uminus)
qed

lemma fl_abs_ge_pow:
  assumes "- 1074 \<le> k" "2 powi k \<le> \<bar>x\<bar>"
  shows "2 powi k \<le> \<bar>fl x\<bar>"
proof (cases "0 \<le> x")
  case True
  then show ?thesis using fl_ge_pow[of k x] assms by simp
next
  case False
  then show ?thesis using fl_ge_pow[of k "- x"] assms by (simp add: fl_uminus)
qed

lemma finite_float_le_pow:
  assumes "\<bar>x\<bar> \<le> 2 powi k" "k < 1024"
  shows "finite_float x"
proof -
  have "(2::rat) powi k < 2 powi 1024"
    using assms(2) by (rule power_int_strict_increasing) simp
  then show ?thesis using assms(1) by (simp add: finite_float_def)
qed

lemma finite_float_fl:
  assumes "\<bar>x\<bar> \<le> 2 powi k" "- 1074 \<le> k" "k < 1024"
  shows "finite_float (fl x)"
  using fl_abs_le_pow[OF assms(2) assms(1)] assms(3) by (rule finite_float_le_pow)

lemma finite_float_imp:
  assumes "finite_float (fl x)"
  shows "\<bar>x\<bar> < 2 powi 1024"
proof (rule ccontr)
  assume "\<not> \<bar>x\<bar> < 2 powi 1024"
  then have "2 powi 1024 \<le> \<bar>fl x\<bar>" by (intro fl_abs_ge_pow) simp_all
  then show False using assms by (simp add: finite_float_def)
qed

lemma to_float_Inr:
  assumes "finite_float (float_of_int n)"
  shows "to_float n = Inr (float_of_int n)"
  using assms by (simp add: to_float_def)

lemma to_float_Inl:
  assumes "\<not> finite_float (float_of_int n)"
  shows "to_float n = Inl OverflowError"
  using assms by (simp add: to_float_def)

lemma finite_float_smaller:
  assumes f: "finite_float (float_of_int (n * 100))" and c: "0 \<le> c" "c \<le> 50"
  shows "finite_float (float_of_int (c * n))"
proof -
  have "\<bar>of_int (n * 100) :: rat\<bar> < 2 powi 1024"
    using f unfolding float_of_int_def by (rule finite_float_imp)
  then have a: "100 * \<bar>of_int n :: rat\<bar> < 2 * 2 powi 1023"
    using power_int_add[of "2::rat" 1 1023] by (simp add: abs_mult)
  have "\<bar>of_int (c * n) :: rat\<bar> = of_int c * \<bar>of_int n\<bar>" using c(1) by (simp add: abs_mult)
  also have "\<dots> \<le> 50 * \<bar>of_int n\<bar>"
    using c(2) by (intro mult_right_mono) (simp_all add: of_int_le_numeral_iff)
  also have "\<dots> \<le> 2 powi 1023" using a by simp
  finally show ?thesis unfolding float_of_int_def by (rule finite_float_fl) simp_all
qed

lemma finite_float_of_small_int:
  assumes "\<bar>n\<bar> \<le> 2 ^ 53"
  shows "finite_float (float_of_int n)"
proof -
  have "\<bar>of_int n :: rat\<bar> \<le> of_int (2 ^ 53)" using assms by (simp only: flip: of_int_abs of_int_le_iff)
  then have "\<bar>of_int n :: rat\<bar> \<le> 2 powi 53" by simp
  then show ?thesis unfolding float_of_int_def by (rule finite_float_fl) simp_all
qed

section \<open>The calculators, unfolded\<close>

lemma and_then_Inr: "and_then (Inr x) f = f x"
  by (simp add: and_then_def)

lemma and_then_Inl: "and_then (Inl e) f = Inl e"
  by (simp add: and_then_def)

lemma fmul_nonzero:
  assumes "fmul x y \<noteq> 0"
  shows "x \<noteq> 0" "y \<noteq> 0"
  using assms by (auto simp add: fmul_def fl_0)

lemma calculate_derived_rates_Inr:
  assumes "fmul (fsub 1 (ICMS cls)) (fsub 1 (PISCOF cls)) \<noteq> 0"
  shows "calculate_derived_rates cls =
     Inr \<lparr>tarifa_de_aplicacao = fadd (TE_ENEL_CE cls) (TUSD_ENEL_CE cls),
          tarifa_fornecida =
            py_round (fl (fadd (TE_ENEL_CE cls) (TUSD_ENEL_CE cls) /
                          fmul (fsub 1 (ICMS cls)) (fsub 1 (PISCOF cls)))) 4,
          tarifa_injetada_compartilhada =
            fadd (fl (TE_ENEL_CE cls / fmul (fsub 1 (ICMS cls)) (fsub 1 (PISCOF cls))))
                 (fl (TUSD_ENEL_CE cls / fsub 1 (PISCOF cls))),
          tarifa_injetada_real =
            py_round (fadd (fl (TE_ENEL_CE cls / fmul (fsub 1 (ICMS cls)) (fsub 1 (PISCOF cls))))
                           (fl (TUSD_ENEL_CE cls / fsub 1 (PISCOF cls)))) 4,
          impostos_n_compoensaveis =
            fsub (py_round (fl (fadd (TE_ENEL_CE cls) (TUSD_ENEL_CE cls) /
                          fmul (fsub 1 (ICMS cls)) (fsub 1 (PISCOF cls)))) 4)
                 (py_round (fadd (fl (TE_ENEL_CE cls / fmul (fsub 1 (ICMS cls)) (fsub 1 (PISCOF cls))))
                           (fl (TUSD_ENEL_CE cls / fsub 1 (PISCOF cls)))) 4)\<rparr>"
  using assms fmul_nonzero(2)[OF assms]
  by (simp add: calculate_derived_rates_def fdiv_def and_then_Inr Let_def)

lemma calculate_derived_rates_Inl:
  assumes "fmul (fsub 1 (ICMS cls)) (fsub 1 (PISCOF cls)) = 0"
  shows "calculate_derived_rates cls = Inl ZeroDivisionError"
  using assms by (simp add: calculate_derived_rates_def fdiv_def and_then_Inl Let_def)


lemma keys_distinct:
  "distinct [valor_em_energia, custo_minimo, iluminacao_publica, impostos, total]"
  by (simp add: valor_em_energia_def custo_minimo_def iluminacao_publica_def impostos_def
      total_def str_def)

lemma mk_bill_lookup:
  "mk_bill e m p t s valor_em_energia = Some e"
  "mk_bill e m p t s custo_minimo = Some m"
  "mk_bill e m p t s iluminacao_publica = Some p"
  "mk_bill e m p t s impostos = Some t"
  "mk_bill e m p t s total = Some s"
  using keys_distinct by (auto simp add: mk_bill_def)

lemma recognised_cases:
  "Trifasico \<noteq> Monofasico" "Trifasico \<noteq> Bifasico" "Monofasico \<noteq> Bifasico"
  by (simp_all add: Trifasico_def Monofasico_def Bifasico_def str_def)

lemma calculate_bill_before_Inr:
  assumes r: "calculate_derived_rates td = Inr r"
    and dc: "recognised dc"
    and fin: "finite_float (float_of_int (n * 100))"
  shows "calculate_bill_before td pic dc cons n =
    Inr (mk_bill
      (fmul (fsub cons (float_of_int (n * 100))) (tarifa_injetada_real r))
      (fmul (float_of_int (base_allowance dc * n)) (tarifa_fornecida r))
      pic
      (fmul (fsub cons (float_of_int (n * 100))) (impostos_n_compoensaveis r))
      (fadd (fadd (fadd (fmul (fsub cons (float_of_int (n * 100))) (tarifa_injetada_real r))
                        (fmul (float_of_int (base_allowance dc * n)) (tarifa_fornecida r))) pic)
            (fmul (fsub cons (float_of_int (n * 100))) (impostos_n_compoensaveis r))))"
proof -
  have h: "to_float (n * 100) = Inr (float_of_int (n * 100))"
    using fin by (rule to_float_Inr)
  have "finite_float (float_of_int (100 * n))" using fin by (simp add: mult.commute)
  then have a100: "to_float (100 * n) = Inr (float_of_int (100 * n))" by (rule to_float_Inr)
  have a30: "to_float (30 * n) = Inr (float_of_int (30 * n))"
    by (rule to_float_Inr, rule finite_float_smaller[OF fin]) simp_all
  have a50: "to_float (50 * n) = Inr (float_of_int (50 * n))"
    by (rule to_float_Inr, rule finite_float_smaller[OF fin]) simp_all
  show ?thesis
    using dc recognised_cases
    by (auto simp add: calculate_bill_before_def get_tarifas_def r and_then_Inr Let_def
        base_allowance_def recognised_def h a100 a30 a50)
qed

lemma calculate_bill_before_ValueError:
  assumes r: "calculate_derived_rates td = Inr r"
    and dc: "\<not> recognised dc"
    and fin: "finite_float (float_of_int (n * 100))"
  shows "calculate_bill_before td pic dc cons n = Inl (ValueError custo_invalido)"
  using dc
  by (simp add: calculate_bill_before_def get_tarifas_def r and_then_Inr and_then_Inl Let_def
      recognised_def to_float_Inr[OF fin])

lemma calculate_bill_before_OverflowError:
  assumes r: "calculate_derived_rates td = Inr r"
    and fin: "\<not> finite_float (float_of_int (n * 100))"
  shows "calculate_bill_before td pic dc cons n = Inl OverflowError"
  by (simp add: calculate_bill_before_def get_tarifas_def r and_then_Inr and_then_Inl
      to_float_Inl[OF fin])

lemma calculate_bill_before_Inl:
  assumes "calculate_derived_rates td = Inl e"
  shows "calculate_bill_before td pic dc cons n = Inl e"
  using assms by (simp add: calculate_bill_before_def get_tarifas_def and_then_Inl)

lemma calculate_bill_before_shape:
  assumes "calculate_bill_before td pic dc cons n = Inr b"
  shows "\<exists>e m t. b = mk_bill e m pic t (fadd (fadd (fadd e m) pic) t) \<and> fl e = e"
proof (cases "calculate_derived_rates td")
  case (Inl e)
  then show ?thesis using assms by (simp add: calculate_bill_before_Inl)
next
  case (Inr r)
  show ?thesis
  proof (cases "finite_float (float_of_int (n * 100))")
    case fin: True
    show ?thesis
    proof (cases "recognised dc")
      case True
      have "fl (fmul (fsub cons (float_of_int (n * 100))) (tarifa_injetada_real r)) =
          fmul (fsub cons (float_of_int (n * 100))) (tarifa_injetada_real r)"
        by (simp add: fmul_def fl_idem)
      then show ?thesis
        using assms calculate_bill_before_Inr[OF Inr True fin, of pic cons] by auto
    next
      case False
      then show ?thesis
        using assms calculate_bill_before_ValueError[OF Inr False fin, of pic cons] by auto
    qed
  next
    case False
    then show ?thesis
      using assms calculate_bill_before_OverflowError[OF Inr False, of pic dc cons] by auto
  qed
qed

lemma calculate_bill_after_of_before:
  assumes "calculate_bill_before td pic dc cons n = Inr (mk_bill e m p t s)"
  shows "calculate_bill_after td pic dc cons n d =
    Inr (mk_bill e m p t (fadd (fadd (fadd t p) m) (fmul e (fsub 1 (fl (d / 100))))))"
  by (simp add: calculate_bill_after_def assms and_then_Inr getitem_def mk_bill_lookup fdiv_def
      Let_def)

lemma calculate_bill_after_Inl:
  assumes "calculate_bill_before td pic dc cons n = Inl e"
  shows "calculate_bill_after td pic dc cons n d = Inl e"
  by (simp add: calculate_bill_after_def assms and_then_Inl)



section \<open>The tariff derivation\<close>

text \<open>
  The floats the derivation computes from the class constants are, as Python prints them,
  0.7222, 0.8, 0.95, 0.76, 0.9502631578947368, 0.9503, 0.3590921052631579,
  0.4729368421052632, 0.832028947368421, 0.832 and 0.11830000000000007.
\<close>

lemma derived_rates_floats_TarifaConstants:
  "derived_rates_floats TarifaConstants =
     [813124912721743 / 1125899906842624,
      3602879701896397 / 4503599627370496,
      4278419646001971 / 4503599627370496,
      3422735716801577 / 4503599627370496,
      8559209607597295 / 9007199254740992,
      8559541451780365 / 9007199254740992,
      6468828285819379 / 18014398509481984,
      4259836371750085 / 9007199254740992,
      3747125257329887 / 4503599627370496,
      7493989779944505 / 9007199254740992,
      266387917958965 / 2251799813685248]"
  and rates_TarifaConstants:
  "calculate_derived_rates TarifaConstants =
     Inr \<lparr>tarifa_de_aplicacao = 813124912721743 / 1125899906842624,
          tarifa_fornecida = 8559541451780365 / 9007199254740992,
          tarifa_injetada_compartilhada = 3747125257329887 / 4503599627370496,
          tarifa_injetada_real = 7493989779944505 / 9007199254740992,
          impostos_n_compoensaveis = 266387917958965 / 2251799813685248\<rparr>"
proof -
  have c1: "TE_ENEL_CE TarifaConstants = 614538687152841 / 2251799813685248"
    by code_simp
  have c2: "TUSD_ENEL_CE TarifaConstants = 8093689106325161 / 18014398509481984"
    by code_simp
  have c3: "ICMS TarifaConstants = 3602879701896397 / 18014398509481984"
    by code_simp
  have c4: "PISCOF TarifaConstants = 3602879701896397 / 72057594037927936"
    by code_simp
  have a: "fadd (614538687152841 / 2251799813685248) (8093689106325161 / 18014398509481984) =
      813124912721743 / 1125899906842624"
    by code_simp
  have s1: "fsub 1 (3602879701896397 / 18014398509481984) = 3602879701896397 / 4503599627370496"
    by code_simp
  have s2: "fsub 1 (3602879701896397 / 72057594037927936) = 4278419646001971 / 4503599627370496"
    by code_simp
  have d: "fmul (3602879701896397 / 4503599627370496) (4278419646001971 / 4503599627370496) =
      3422735716801577 / 4503599627370496"
    by code_simp
  have q1: "fl (813124912721743 / 1125899906842624 / (3422735716801577 / 4503599627370496)) =
      8559209607597295 / 9007199254740992"
    by code_simp
  have f: "py_round (8559209607597295 / 9007199254740992) 4 = 8559541451780365 / 9007199254740992"
    by code_simp
  have q2: "fl (614538687152841 / 2251799813685248 / (3422735716801577 / 4503599627370496)) =
      6468828285819379 / 18014398509481984"
    by code_simp
  have q3: "fl (8093689106325161 / 18014398509481984 / (4278419646001971 / 4503599627370496)) =
      4259836371750085 / 9007199254740992"
    by code_simp
  have cp: "fadd (6468828285819379 / 18014398509481984) (4259836371750085 / 9007199254740992) =
      3747125257329887 / 4503599627370496"
    by code_simp
  have rl: "py_round (3747125257329887 / 4503599627370496) 4 =
      7493989779944505 / 9007199254740992"
    by code_simp
  have im: "fsub (8559541451780365 / 9007199254740992) (7493989779944505 / 9007199254740992) =
      266387917958965 / 2251799813685248"
    by code_simp
  note steps = c1 c2 c3 c4 a s1 s2 d q1 f q2 q3 cp rl im
  show "derived_rates_floats TarifaConstants =
     [813124912721743 / 1125899906842624,
      3602879701896397 / 4503599627370496,
      4278419646001971 / 4503599627370496,
      3422735716801577 / 4503599627370496,
      8559209607597295 / 9007199254740992,
      8559541451780365 / 9007199254740992,
      6468828285819379 / 18014398509481984,
      4259836371750085 / 9007199254740992,
      3747125257329887 / 4503599627370496,
      7493989779944505 / 9007199254740992,
      266387917958965 / 2251799813685248]"
    unfolding derived_rates_floats_def steps ..
  have "fmul (fsub 1 (ICMS TarifaConstants)) (fsub 1 (PISCOF TarifaConstants)) =
      3422735716801577 / 4503599627370496"
    unfolding steps ..
  then have nz: "fmul (fsub 1 (ICMS TarifaConstants)) (fsub 1 (PISCOF TarifaConstants)) \<noteq> 0"
    by simp
  show "calculate_derived_rates TarifaConstants =
     Inr \<lparr>tarifa_de_aplicacao = 813124912721743 / 1125899906842624,
          tarifa_fornecida = 8559541451780365 / 9007199254740992,
          tarifa_injetada_compartilhada = 3747125257329887 / 4503599627370496,
          tarifa_injetada_real = 7493989779944505 / 9007199254740992,
          impostos_n_compoensaveis = 266387917958965 / 2251799813685248\<rparr>"
    unfolding calculate_derived_rates_Inr[OF nz] steps ..
qed

lemma no_overflow_TarifaConstants: "no_overflow (derived_rates_floats TarifaConstants)"
  unfolding derived_rates_floats_TarifaConstants
  by (simp add: no_overflow_def finite_float_def)

lemma nonzero_TarifaConstants:
  "fmul (fsub 1 (ICMS TarifaConstants)) (fsub 1 (PISCOF TarifaConstants)) \<noteq> 0"
  using rates_TarifaConstants calculate_derived_rates_Inl[of TarifaConstants] by force

text \<open>
  Claim C3 as stated fails for constants with a zero denominator: with ICMS = 1 the
  product \<open>(1 - ICMS) * (1 - PISCOF)\<close> is 0 and \<^verbatim>\<open>calculate_derived_rates\<close> raises
  \<^verbatim>\<open>ZeroDivisionError\<close> at its first division; it returns no rates.
\<close>

theorem derived_rates_zero_denominator:
  "calculate_derived_rates
     \<lparr>TE_ENEL_CE = fl (27291 / 100000), TUSD_ENEL_CE = fl (44929 / 100000),
      ICMS = 1, PISCOF = fl (5 / 100)\<rparr> = Inl ZeroDivisionError"
  by (rule calculate_derived_rates_Inl) (simp add: fsub_def fmul_def fl_0)

text \<open>
  Claim C3, amended. Whenever the denominator \<open>(1 - ICMS) * (1 - PISCOF)\<close> is not zero and
  no float of the derivation leaves the finite range, \<^verbatim>\<open>calculate_derived_rates\<close> returns
  the supplied tariff \<open>round((TE + TUSD) / ((1 - ICMS) * (1 - PISCOF)), 4)\<close>, the shared
  injected tariff \<open>TE / ((1 - ICMS) * (1 - PISCOF)) + TUSD / (1 - PISCOF)\<close> without decimal
  rounding, the real injected tariff as the shared one rounded to four decimals, and the
  taxes that cannot be offset as the supplied tariff minus the real injected one, so
  that this difference is the returned value exactly. Every operation is the float
  operation of the source.
\<close>

theorem derived_rates_formulas:
  assumes "fmul (fsub 1 (ICMS cls)) (fsub 1 (PISCOF cls)) \<noteq> 0"
    and "no_overflow (derived_rates_floats cls)"
  shows "\<exists>r. calculate_derived_rates cls = Inr r \<and>
    tarifa_fornecida r =
      py_round (fl (fadd (TE_ENEL_CE cls) (TUSD_ENEL_CE cls) /
                    fmul (fsub 1 (ICMS cls)) (fsub 1 (PISCOF cls)))) 4 \<and>
    tarifa_injetada_compartilhada r =
      fadd (fl (TE_ENEL_CE cls / fmul (fsub 1 (ICMS cls)) (fsub 1 (PISCOF cls))))
           (fl (TUSD_ENEL_CE cls / fsub 1 (PISCOF cls))) \<and>
    tarifa_injetada_real r = py_round (tarifa_injetada_compartilhada r) 4 \<and>
    impostos_n_compoensaveis r = fsub (tarifa_fornecida r) (tarifa_injetada_real r)"
  by (simp add: calculate_derived_rates_Inr[OF assms(1)])

text \<open>
  The theorem at the class constants.
\<close>

theorem derived_rates_formulas_witness:
  "fmul (fsub 1 (ICMS TarifaConstants)) (fsub 1 (PISCOF TarifaConstants)) \<noteq> 0 \<and>
   no_overflow (derived_rates_floats TarifaConstants) \<and>
   (\<exists>r. calculate_derived_rates TarifaConstants = Inr r \<and>
    tarifa_fornecida r =
      py_round (fl (fadd (TE_ENEL_CE TarifaConstants) (TUSD_ENEL_CE TarifaConstants) /
                    fmul (fsub 1 (ICMS TarifaConstants)) (fsub 1 (PISCOF TarifaConstants)))) 4 \<and>
    tarifa_injetada_compartilhada r =
      fadd (fl (TE_ENEL_CE TarifaConstants /
                fmul (fsub 1 (ICMS TarifaConstants)) (fsub 1 (PISCOF TarifaConstants))))
           (fl (TUSD_ENEL_CE TarifaConstants / fsub 1 (PISCOF TarifaConstants))) \<and>
    tarifa_injetada_real r = py_round (tarifa_injetada_compartilhada r) 4 \<and>
    impostos_n_compoensaveis r = fsub (tarifa_fornecida r) (tarifa_injetada_real r))"
  using nonzero_TarifaConstants no_overflow_TarifaConstants
    derived_rates_formulas[OF nonzero_TarifaConstants no_overflow_TarifaConstants]
  by (intro conjI)

section \<open>The example of the documentation\<close>

lemma recognised_simps:
  "recognised Trifasico" "recognised Bifasico" "recognised Monofasico"
  by (simp_all add: recognised_def)

lemma finite_float_example: "finite_float (float_of_int (1 * 100))"
  by (rule finite_float_of_small_int) simp

lemma before_example:
  "calculate_bill_before TarifaConstants 30 Trifasico 1000 1 =
     Inr (mk_bill (3293257227514675 / 4398046511104) (3343570879601705 / 35184372088832) 30
            (7492160192595891 / 70368744177664) (4311404994835251 / 4398046511104))"
proof -
  note b = calculate_bill_before_Inr[OF rates_TarifaConstants recognised_simps(1)
      finite_float_example, of 30 1000]
  have e: "fmul (fsub 1000 (float_of_int (1 * 100))) (7493989779944505 / 9007199254740992) =
      3293257227514675 / 4398046511104"
    by code_simp
  have m: "fmul (float_of_int (base_allowance Trifasico * 1)) (8559541451780365 / 9007199254740992) =
      3343570879601705 / 35184372088832"
    by code_simp
  have t: "fmul (fsub 1000 (float_of_int (1 * 100))) (266387917958965 / 2251799813685248) =
      7492160192595891 / 70368744177664"
    by code_simp
  have s: "fadd (fadd (fadd (3293257227514675 / 4398046511104) (3343570879601705 / 35184372088832)) 30)
        (7492160192595891 / 70368744177664) = 4311404994835251 / 4398046511104"
    by code_simp
  show ?thesis
    using b by (simp only: derived_rates.select_convs e m t s)
qed

lemma after_example_totals:
  "fadd (fadd (fadd (7492160192595891 / 70368744177664) 30) (3343570879601705 / 35184372088832))
     (fmul (3293257227514675 / 4398046511104) (fsub 1 (fl (0 / 100)))) =
   8622809989670503 / 8796093022208"
  "fadd (fadd (fadd (7492160192595891 / 70368744177664) 30) (3343570879601705 / 35184372088832))
     (fmul (3293257227514675 / 4398046511104) (fsub 1 (fl (20 / 100)))) =
   7305507098664633 / 8796093022208"
  "fmul (3293257227514675 / 4398046511104) (fsub 1 (fl (100 / 100))) = 0"
  by code_simp+

lemma result_item_Inr: "result_item (Inr b) k = b k"
  by (simp add: result_item_def)

lemma returned_Inr: "returned (Inr x) = Some x"
  by (simp add: returned_def)

lemma fl_1: "fl 1 = 1"
  using fl_fix[of 1 1 0] by simp

lemma float_of_int_exact:
  assumes "\<bar>n\<bar> \<le> 2 ^ 53"
  shows "float_of_int n = of_int n"
  unfolding float_of_int_def using fl_fix[of "of_int n" n 0] assms by simp

lemma fsub_below:
  assumes c: "fl c = c" and y: "c < of_int y" "100 \<le> y"
  shows "fsub c (of_int y) \<le> - (2 powi (- 46))"
proof -
  have "c - of_int y \<le> - (2 powi (- 46))"
  proof (cases "c \<le> 64")
    case True
    have "(of_int y :: rat) \<ge> 100" using y(2) by (metis of_int_le_iff of_int_numeral)
    then have "c - of_int y \<le> - 36" using True by simp
    moreover have "- 36 \<le> - ((2::rat) powi (- 46))" by (simp add: power_int_minus)
    ultimately show ?thesis by linarith
  next
    case False
    then have "(2::rat) powi 6 \<le> \<bar>c\<bar>" by simp
    from fl_grid[OF c this] obtain n where n: "c = of_int n * 2 powi (- 46)" by auto
    have "(of_int y :: rat) = of_int (y * 2 ^ 46) * 2 powi (- 46)"
      by (simp add: power_int_minus)
    then have d: "c - of_int y = of_int (n - y * 2 ^ 46) * 2 powi (- 46)"
      using n by (simp add: algebra_simps)
    have "c - of_int y < 0" using y(1) by simp
    then have "(of_int (n - y * 2 ^ 46) :: rat) < 0"
      unfolding d by (simp add: mult_less_0_iff)
    then have "n - y * 2 ^ 46 \<le> - 1" by simp
    then have "(of_int (n - y * 2 ^ 46) :: rat) \<le> of_int (- 1)" by (simp only: of_int_le_iff)
    then have "of_int (n - y * 2 ^ 46) * (2::rat) powi (- 46) \<le> of_int (- 1) * 2 powi (- 46)"
      by (intro mult_right_mono) simp_all
    then show ?thesis unfolding d by simp
  qed
  then show ?thesis unfolding fsub_def by (intro fl_le_neg_pow) simp_all
qed

lemma fmul_below:
  assumes "x \<le> - (2 powi (- 46))" "2 powi (- 4) \<le> r"
  shows "fmul x r < 0"
proof -
  have x0: "x \<le> 0" using assms(1) by (meson neg_le_0_iff_le order_trans zero_le_power_int zero_le_numeral)
  have "x * r \<le> x * 2 powi (- 4)" using assms(2) x0 by (rule mult_left_mono_neg)
  also have "\<dots> \<le> - (2 powi (- 46)) * 2 powi (- 4)"
    using assms(1) by (intro mult_right_mono) simp_all
  also have "\<dots> = - ((2::rat) powi (- 50))" by (simp add: power_int_minus)
  finally have "fl (x * r) \<le> - (2 powi (- 50))" by (intro fl_le_neg_pow) simp_all
  moreover have "(0::rat) < 2 powi (- 50)" by simp
  ultimately show ?thesis unfolding fmul_def by linarith
qed

section \<open>The bills\<close>

lemma after_example:
  "calculate_bill_after TarifaConstants 30 Trifasico 1000 1 d =
     Inr (mk_bill (3293257227514675 / 4398046511104) (3343570879601705 / 35184372088832) 30
            (7492160192595891 / 70368744177664)
            (fadd (fadd (fadd (7492160192595891 / 70368744177664) 30)
                        (3343570879601705 / 35184372088832))
                  (fmul (3293257227514675 / 4398046511104) (fsub 1 (fl (d / 100))))))"
  by (rule calculate_bill_after_of_before[OF before_example])






text \<open>
  Claim C1, at a discount of 100 percent. \<^verbatim>\<open>calculate_bill_after\<close> computes the discounted
  energy cost and uses it in the total only: under \<^verbatim>\<open>'valor em energia'\<close> it returns the
  energy cost of the bill before, here 748.8, where the discounted energy cost is 0.
\<close>

theorem after_bill_energy_at_full_discount:
  "result_item (calculate_bill_after TarifaConstants 30 Trifasico 1000 1 100) valor_em_energia =
     Some (3293257227514675 / 4398046511104) \<and>
   result_item (calculate_bill_before TarifaConstants 30 Trifasico 1000 1) valor_em_energia =
     Some (3293257227514675 / 4398046511104) \<and>
   fmul (3293257227514675 / 4398046511104) (fsub 1 (fl (100 / 100))) = 0"
  by (simp only: after_example before_example result_item_Inr mk_bill_lookup
      after_example_totals(3) simp_thms)

text \<open>
  Claim C2 as stated fails. For the constants of the class the supplied tariff is the
  float 0.9503 and the minimum cost of a three-phase connection with one unit is the
  float 95.03; they are not within 0.001 of 0.9528 and not within 0.1 of 95.28.
\<close>

theorem end_to_end_example_not_09528:
  "map_option tarifa_fornecida (returned (calculate_derived_rates TarifaConstants)) =
     Some (8559541451780365 / 9007199254740992) \<and>
   \<not> approx (1 / 1000) (8559541451780365 / 9007199254740992) (9528 / 10000) \<and>
   result_item (calculate_bill_before TarifaConstants 30 Trifasico 1000 1) custo_minimo =
     Some (3343570879601705 / 35184372088832) \<and>
   \<not> approx (1 / 10) (3343570879601705 / 35184372088832) (9528 / 100)"
  by (simp add: rates_TarifaConstants returned_Inr before_example result_item_Inr
      mk_bill_lookup approx_def)

text \<open>
  Claim C2, amended. With the constants of the class, a three-phase connection, 1000 kWh,
  one unit, 30 of public illumination and a discount of 20 percent, the supplied tariff
  is 0.9503 to four decimals, the minimum cost before is 95.03 to two decimals, and the
  total after (830.54...) is strictly less than the total before (980.3).
\<close>

theorem end_to_end_example:
  "map_option tarifa_fornecida (returned (calculate_derived_rates TarifaConstants)) =
     Some (8559541451780365 / 9007199254740992) \<and>
   approx (1 / 20000) (8559541451780365 / 9007199254740992) (9503 / 10000) \<and>
   result_item (calculate_bill_before TarifaConstants 30 Trifasico 1000 1) custo_minimo =
     Some (3343570879601705 / 35184372088832) \<and>
   approx (1 / 200) (3343570879601705 / 35184372088832) (9503 / 100) \<and>
   result_item (calculate_bill_before TarifaConstants 30 Trifasico 1000 1) total =
     Some (4311404994835251 / 4398046511104) \<and>
   result_item (calculate_bill_after TarifaConstants 30 Trifasico 1000 1 20) total =
     Some (7305507098664633 / 8796093022208) \<and>
   (7305507098664633 / 8796093022208 :: rat) < 4311404994835251 / 4398046511104"
proof -
  have a: "result_item (calculate_bill_after TarifaConstants 30 Trifasico 1000 1 20) total =
     Some (7305507098664633 / 8796093022208)"
    by (simp only: after_example result_item_Inr mk_bill_lookup after_example_totals(2))
  show ?thesis
    by (simp add: a rates_TarifaConstants returned_Inr before_example result_item_Inr
        mk_bill_lookup approx_def)
qed

text \<open>
  Claim C6 as stated fails. At the example of the documentation and a discount of 0,
  the total after is the float 980.3000000000001 and the total before is the float
  980.3: the four components are added in opposite orders, and float addition is not
  associative.
\<close>

theorem zero_discount_total_differs:
  "result_item (calculate_bill_after TarifaConstants 30 Trifasico 1000 1 0) total =
     Some (8622809989670503 / 8796093022208) \<and>
   result_item (calculate_bill_before TarifaConstants 30 Trifasico 1000 1) total =
     Some (4311404994835251 / 4398046511104) \<and>
   result_item (calculate_bill_after TarifaConstants 30 Trifasico 1000 1 0) total \<noteq>
     result_item (calculate_bill_before TarifaConstants 30 Trifasico 1000 1) total"
proof -
  have a: "result_item (calculate_bill_after TarifaConstants 30 Trifasico 1000 1 0) total =
     Some (8622809989670503 / 8796093022208)"
    by (simp only: after_example result_item_Inr mk_bill_lookup after_example_totals(1))
  show ?thesis
    by (simp add: a before_example result_item_Inr mk_bill_lookup)
qed

section \<open>Sums of floats\<close>

lemma fadd3_err:
  "\<bar>fadd (fadd (fadd a b) c) d - (a + b + c + d)\<bar>
     \<le> 2 powi (- 51) * (\<bar>a\<bar> + \<bar>b\<bar> + \<bar>c\<bar> + \<bar>d\<bar>) + 2 powi (- 1073)"
proof -
  define h :: rat where "h = 2 powi (- 1075)"
  define s1 where "s1 = fl (a + b)"
  define s2 where "s2 = fl (s1 + c)"
  define s3 where "s3 = fl (s2 + d)"
  define d1 where "d1 = \<bar>s1 - (a + b)\<bar>"
  define d2 where "d2 = \<bar>s2 - (s1 + c)\<bar>"
  define d3 where "d3 = \<bar>s3 - (s2 + d)\<bar>"
  define A where "A = \<bar>a\<bar> + \<bar>b\<bar> + \<bar>c\<bar> + \<bar>d\<bar>"
  have u: "(2::rat) powi (- 53) = 1 / 9007199254740992" by (simp add: power_int_minus)
  have h0: "0 \<le> h" by (simp add: h_def)
  have A0: "0 \<le> A" by (simp add: A_def)
  define p1 where "p1 = \<bar>a + b\<bar>"
  define p2 where "p2 = \<bar>s1 + c\<bar>"
  define p3 where "p3 = \<bar>s2 + d\<bar>"
  have e1: "d1 \<le> 1 / 9007199254740992 * p1 + h"
    using fl_err[of "a + b"] by (simp add: d1_def s1_def h_def u p1_def)
  have e2: "d2 \<le> 1 / 9007199254740992 * p2 + h"
    using fl_err[of "s1 + c"] by (simp add: d2_def s2_def h_def u p2_def)
  have e3: "d3 \<le> 1 / 9007199254740992 * p3 + h"
    using fl_err[of "s2 + d"] by (simp add: d3_def s3_def h_def u p3_def)
  have b1: "p1 \<le> A" by (simp add: A_def p1_def)
  have b2: "p2 \<le> A + d1" unfolding A_def d1_def p2_def by linarith
  have b3: "p3 \<le> A + d1 + d2" unfolding A_def d1_def d2_def p3_def by linarith
  have tot: "\<bar>s3 - (a + b + c + d)\<bar> \<le> d1 + d2 + d3"
    unfolding d1_def d2_def d3_def by linarith
  have "d1 + d2 + d3 \<le> 4 / 9007199254740992 * A + 4 * h"
    using e1 e2 e3 b1 b2 b3 h0 A0 by linarith
  moreover have "4 / 9007199254740992 = (2::rat) powi (- 51)" by (simp add: power_int_minus)
  moreover have "4 * h = 2 powi (- 1073)"
    using power_int_add[of "2::rat" 2 "- 1075"] by (simp add: h_def)
  ultimately show ?thesis
    using tot by (simp add: s1_def s2_def s3_def fadd_def A_def)
qed

section \<open>Low consumption and zero discount\<close>

lemma is_float_of_int:
  assumes "\<bar>n\<bar> \<le> 2 ^ 53"
  shows "is_float (of_int n)"
  unfolding is_float_def using fl_fix[of "of_int n" n 0] assms by simp

lemma fmul_one_float:
  assumes "fl e = e"
  shows "fmul e (fsub 1 (fl (0 / 100))) = e"
  by (simp add: fmul_def fsub_def fl_0 fl_1 assms)

text \<open>
  Claim C4, amended. For every recognised connection type, every number of units from 1
  whose hundredfold is at most \<open>2 ^ 53\<close> (so that \<^verbatim>\<open>n_ucs * 100\<close> is a float), every float
  consumption and every public illumination cost, \<^verbatim>\<open>calculate_bill_before\<close> returns a
  bill: the energy cost is \<open>(consumption - units * 100) * real injected tariff\<close>, the taxes
  are \<open>(consumption - units * 100) * taxes that cannot be offset\<close>, the total is
  energy cost + minimum cost + public illumination + taxes, each operation a float
  operation in the order of the source, and the energy cost and the taxes are negative
  when the consumption is below \<open>units * 100\<close>: such a consumption is not rejected.
\<close>

theorem bill_before_below_allowance:
  assumes dc: "recognised dc" and n: "1 \<le> n" "n * 100 \<le> 2 ^ 53" and cons: "is_float cons"
  shows "\<exists>r b e t m.
    calculate_derived_rates TarifaConstants = Inr r \<and>
    calculate_bill_before TarifaConstants pic dc cons n = Inr b \<and>
    b valor_em_energia = Some e \<and>
    e = fmul (fsub cons (float_of_int (n * 100))) (tarifa_injetada_real r) \<and>
    b impostos = Some t \<and>
    t = fmul (fsub cons (float_of_int (n * 100))) (impostos_n_compoensaveis r) \<and>
    b custo_minimo = Some m \<and>
    b iluminacao_publica = Some pic \<and>
    b total = Some (fadd (fadd (fadd e m) pic) t) \<and>
    (cons < of_int (n * 100) \<longrightarrow> e < 0 \<and> t < 0)"
proof -
  have small: "\<bar>n * 100\<bar> \<le> 2 ^ 53" using n by simp
  have ex: "float_of_int (n * 100) = of_int (n * 100)"
    using small by (rule float_of_int_exact)
  note b = calculate_bill_before_Inr[OF rates_TarifaConstants dc
      finite_float_of_small_int[OF small], of pic cons]
  have neg: "fmul (fsub cons (float_of_int (n * 100))) x < 0"
    if "cons < of_int (n * 100)" "2 powi (- 4) \<le> x" for x
  proof -
    have "fsub cons (of_int (n * 100)) \<le> - (2 powi (- 46))"
      using cons that(1) n(1) by (intro fsub_below) (simp_all add: is_float_def)
    then show ?thesis unfolding ex using that(2) by (rule fmul_below)
  qed
  have "(2::rat) powi (- 4) \<le> 7493989779944505 / 9007199254740992"
    "(2::rat) powi (- 4) \<le> 266387917958965 / 2251799813685248"
    by (simp_all add: power_int_minus)
  then show ?thesis
    using b neg by (auto simp add: rates_TarifaConstants mk_bill_lookup)
qed

text \<open>
  The theorem at a three-phase connection, one unit and a consumption of 50 kWh.
\<close>

theorem bill_before_below_allowance_witness:
  "recognised Trifasico \<and> is_float 50 \<and>
   (\<exists>r b e t m.
    calculate_derived_rates TarifaConstants = Inr r \<and>
    calculate_bill_before TarifaConstants 30 Trifasico 50 1 = Inr b \<and>
    b valor_em_energia = Some e \<and>
    e = fmul (fsub 50 (float_of_int (1 * 100))) (tarifa_injetada_real r) \<and>
    b impostos = Some t \<and>
    t = fmul (fsub 50 (float_of_int (1 * 100))) (impostos_n_compoensaveis r) \<and>
    b custo_minimo = Some m \<and>
    b iluminacao_publica = Some 30 \<and>
    b total = Some (fadd (fadd (fadd e m) 30) t) \<and>
    e < 0 \<and> t < 0)"
proof -
  have f: "is_float 50" using is_float_of_int[of 50] by simp
  show ?thesis
    using bill_before_below_allowance[OF recognised_simps(1) _ _ f, of 1 30] f
      recognised_simps(1)
    by simp
qed

text \<open>
  Claim C4 as stated fails for a number of units beyond \<open>2 ^ 53 / 100\<close>. With
  720575940379281 units, \<^verbatim>\<open>n_ucs * 100\<close> is 72057594037928100 and converts to the float
  72057594037928096; a consumption of 72057594037928096 is below \<^verbatim>\<open>n_ucs * 100\<close>, and the
  energy cost and the taxes are 0, not negative.
\<close>

theorem bill_before_large_unit_count:
  "is_float 72057594037928096 \<and>
   (72057594037928096 :: rat) < of_int (720575940379281 * 100) \<and>
   result_item (calculate_bill_before TarifaConstants 0 Trifasico 72057594037928096
     720575940379281) valor_em_energia = Some 0 \<and>
   result_item (calculate_bill_before TarifaConstants 0 Trifasico 72057594037928096
     720575940379281) impostos = Some 0"
proof -
  have f: "is_float 72057594037928096"
    using is_float_of_int[of "4503599627370506"] fl_fix[of 72057594037928096 4503599627370506 4]
    by (simp add: is_float_def)
  have z: "fsub 72057594037928096 (float_of_int 72057594037928100) = 0"
    by code_simp
  have m0: "fmul 0 x = 0" for x by (simp add: fmul_def fl_0)
  have "\<bar>of_int (720575940379281 * 100) :: rat\<bar> \<le> 2 powi 57" by simp
  then have fin: "finite_float (float_of_int (720575940379281 * 100))"
    unfolding float_of_int_def by (rule finite_float_fl) simp_all
  show ?thesis
    using calculate_bill_before_Inr[OF rates_TarifaConstants recognised_simps(1) fin,
        of 0 72057594037928096] f
    by (simp add: result_item_Inr mk_bill_lookup z m0)
qed

lemma fadd_finite:
  assumes "\<bar>x\<bar> \<le> 2 powi k" "\<bar>y\<bar> \<le> 2 powi k" "- 1074 \<le> k"
  shows "\<bar>fadd x y\<bar> \<le> 2 powi (k + 1)"
proof -
  have "(2::rat) powi (k + 1) = 2 * 2 powi k" using power_int_add[of "2::rat" k 1] by simp
  then have "\<bar>x + y\<bar> \<le> 2 powi (k + 1)" using assms(1,2) by linarith
  then show ?thesis unfolding fadd_def using assms(3) by (intro fl_abs_le_pow) simp_all
qed

text \<open>
  Claim C6, amended. With the class constants, whenever \<^verbatim>\<open>calculate_bill_before\<close> returns a
  bill, with energy cost \<open>e\<close>, minimum cost \<open>m\<close>, public illumination \<open>pic\<close> and taxes
  \<open>t\<close>, and none of the floats the two functions compute from the inputs leaves the
  finite range (the difference of consumption and hundredfold units, the three products
  and the partial sums of both totals), \<^verbatim>\<open>calculate_bill_after\<close> at a discount of 0
  returns a bill whose total is the float sum \<open>((t + pic) + m) + e\<close>, where the total
  before is the float sum \<open>((e + m) + pic) + t\<close>: the same four components in the opposite
  order. The two totals differ by at most
  \<open>2 powi (- 50) * (\<bar>e\<bar> + \<bar>m\<bar> + \<bar>pic\<bar> + \<bar>t\<bar>) + 2 powi (- 1072)\<close>.
\<close>

theorem zero_discount_total_up_to_rounding:
  assumes "calculate_bill_before TarifaConstants pic dc cons n = Inr b"
    and "b valor_em_energia = Some e" "b custo_minimo = Some m" "b impostos = Some t"
    and "no_overflow
      [fsub cons (float_of_int (n * 100)), e, m, t,
       fadd e m, fadd (fadd e m) pic, fadd (fadd (fadd e m) pic) t,
       fadd t pic, fadd (fadd t pic) m, fadd (fadd (fadd t pic) m) e]"
  shows "\<exists>a.
    calculate_bill_after TarifaConstants pic dc cons n 0 = Inr a \<and>
    b iluminacao_publica = Some pic \<and>
    b total = Some (fadd (fadd (fadd e m) pic) t) \<and>
    a total = Some (fadd (fadd (fadd t pic) m) e) \<and>
    \<bar>fadd (fadd (fadd t pic) m) e - fadd (fadd (fadd e m) pic) t\<bar>
      \<le> 2 powi (- 50) * (\<bar>e\<bar> + \<bar>m\<bar> + \<bar>pic\<bar> + \<bar>t\<bar>) + 2 powi (- 1072)"
proof -
  from calculate_bill_before_shape[OF assms(1)] obtain e' m' t'
    where b': "b = mk_bill e' m' pic t' (fadd (fadd (fadd e' m') pic) t')" and e': "fl e' = e'"
    by blast
  have "e' = e" "m' = m" "t' = t" using assms(2-4) by (simp_all add: b' mk_bill_lookup)
  then have b: "b = mk_bill e m pic t (fadd (fadd (fadd e m) pic) t)" and e: "fl e = e"
    using b' e' by simp_all
  have a: "calculate_bill_after TarifaConstants pic dc cons n 0 =
      Inr (mk_bill e m pic t (fadd (fadd (fadd t pic) m) e))"
    using calculate_bill_after_of_before[OF assms(1)[unfolded b], of 0]
    by (simp only: fmul_one_float[OF e])
  define X where "X = fadd (fadd (fadd t pic) m) e"
  define Y where "Y = fadd (fadd (fadd e m) pic) t"
  define S where "S = e + m + pic + t"
  define A where "A = \<bar>e\<bar> + \<bar>m\<bar> + \<bar>pic\<bar> + \<bar>t\<bar>"
  define c1 :: rat where "c1 = 2 powi (- 51)"
  define c2 :: rat where "c2 = 2 powi (- 1073)"
  have "\<bar>X - S\<bar> \<le> c1 * A + c2"
    using fadd3_err[of t pic m e] by (simp add: X_def S_def A_def c1_def c2_def ac_simps)
  moreover have "\<bar>Y - S\<bar> \<le> c1 * A + c2"
    using fadd3_err[of e m pic t] by (simp add: Y_def S_def A_def c1_def c2_def)
  ultimately have "\<bar>X - Y\<bar> \<le> (2 * c1) * A + 2 * c2" by linarith
  moreover have "2 * c1 = 2 powi (- 50)"
    unfolding c1_def using power_int_add[of "2::rat" 1 "- 51"] by simp
  moreover have "2 * c2 = 2 powi (- 1072)"
    unfolding c2_def using power_int_add[of "2::rat" 1 "- 1073"] by simp
  ultimately have "\<bar>X - Y\<bar> \<le> 2 powi (- 50) * A + 2 powi (- 1072)"
    by (simp only:)
  then have "\<bar>fadd (fadd (fadd t pic) m) e - fadd (fadd (fadd e m) pic) t\<bar>
      \<le> 2 powi (- 50) * (\<bar>e\<bar> + \<bar>m\<bar> + \<bar>pic\<bar> + \<bar>t\<bar>) + 2 powi (- 1072)"
    by (simp only: X_def Y_def A_def)
  then show ?thesis
    using a by (auto simp add: b mk_bill_lookup)
qed

lemma no_overflow_example:
  "no_overflow
     [fsub 1000 (float_of_int (1 * 100)),
      3293257227514675 / 4398046511104, 3343570879601705 / 35184372088832,
      7492160192595891 / 70368744177664,
      fadd (3293257227514675 / 4398046511104) (3343570879601705 / 35184372088832),
      fadd (fadd (3293257227514675 / 4398046511104) (3343570879601705 / 35184372088832)) 30,
      fadd (fadd (fadd (3293257227514675 / 4398046511104) (3343570879601705 / 35184372088832)) 30)
        (7492160192595891 / 70368744177664),
      fadd (7492160192595891 / 70368744177664) 30,
      fadd (fadd (7492160192595891 / 70368744177664) 30) (3343570879601705 / 35184372088832),
      fadd (fadd (fadd (7492160192595891 / 70368744177664) 30) (3343570879601705 / 35184372088832))
        (3293257227514675 / 4398046511104)]"
proof -
  define e :: rat where "e = 3293257227514675 / 4398046511104"
  define m :: rat where "m = 3343570879601705 / 35184372088832"
  define t :: rat where "t = 7492160192595891 / 70368744177664"
  have e: "\<bar>e\<bar> \<le> 2 powi 10" "\<bar>e\<bar> \<le> 2 powi 12"
    and m: "\<bar>m\<bar> \<le> 2 powi 10" "\<bar>m\<bar> \<le> 2 powi 11"
    and t: "\<bar>t\<bar> \<le> 2 powi 10" "\<bar>t\<bar> \<le> 2 powi 12"
    and p: "\<bar>30 :: rat\<bar> \<le> 2 powi 10" "\<bar>30 :: rat\<bar> \<le> 2 powi 11"
    by (simp_all add: e_def m_def t_def)
  have fin: "finite_float x" if "\<bar>x\<bar> \<le> 2 powi 13" for x
    using that by (rule finite_float_le_pow) simp
  have s1: "\<bar>fadd e m\<bar> \<le> 2 powi 11" using fadd_finite[OF e(1) m(1)] by simp
  have s2: "\<bar>fadd (fadd e m) 30\<bar> \<le> 2 powi 12" using fadd_finite[OF s1 p(2)] by simp
  have s3: "\<bar>fadd (fadd (fadd e m) 30) t\<bar> \<le> 2 powi 13"
    using fadd_finite[OF s2 t(2)] by simp
  have u1: "\<bar>fadd t 30\<bar> \<le> 2 powi 11" using fadd_finite[OF t(1) p(1)] by simp
  have u2: "\<bar>fadd (fadd t 30) m\<bar> \<le> 2 powi 12" using fadd_finite[OF u1 m(2)] by simp
  have u3: "\<bar>fadd (fadd (fadd t 30) m) e\<bar> \<le> 2 powi 13"
    using fadd_finite[OF u2 e(2)] by simp
  have d: "\<bar>fsub 1000 (float_of_int (1 * 100))\<bar> \<le> 2 powi 13"
    unfolding fsub_def by (rule fl_abs_le_pow) (simp_all add: float_of_int_exact)
  have le: "\<bar>x\<bar> \<le> 2 powi 13" if "\<bar>x\<bar> \<le> 2 powi k" "k \<le> 13" for x :: rat and k
    using that power_int_increasing[of k 13 "2::rat"] by simp
  have "no_overflow [fsub 1000 (float_of_int (1 * 100)), e, m, t, fadd e m, fadd (fadd e m) 30,
      fadd (fadd (fadd e m) 30) t, fadd t 30, fadd (fadd t 30) m, fadd (fadd (fadd t 30) m) e]"
    unfolding no_overflow_def list.pred_inject
    by (intro conjI fin d le[OF e(1)] le[OF m(1)] le[OF t(1)] le[OF s1] le[OF s2] s3 le[OF u1]
        le[OF u2] u3) simp_all
  then show ?thesis by (simp only: e_def m_def t_def)
qed

text \<open>
  The theorem at the example of the documentation.
\<close>

theorem zero_discount_total_up_to_rounding_witness:
  "calculate_bill_before TarifaConstants 30 Trifasico 1000 1 =
     Inr (mk_bill (3293257227514675 / 4398046511104) (3343570879601705 / 35184372088832) 30
            (7492160192595891 / 70368744177664) (4311404994835251 / 4398046511104)) \<and>
   (\<exists>a e m t.
    calculate_bill_after TarifaConstants 30 Trifasico 1000 1 0 = Inr a \<and>
    e = 3293257227514675 / 4398046511104 \<and> m = 3343570879601705 / 35184372088832 \<and>
    t = 7492160192595891 / 70368744177664 \<and>
    no_overflow
      [fsub 1000 (float_of_int (1 * 100)), e, m, t,
       fadd e m, fadd (fadd e m) 30, fadd (fadd (fadd e m) 30) t,
       fadd t 30, fadd (fadd t 30) m, fadd (fadd (fadd t 30) m) e] \<and>
    a total = Some (fadd (fadd (fadd t 30) m) e) \<and>
    \<bar>fadd (fadd (fadd t 30) m) e - fadd (fadd (fadd e m) 30) t\<bar>
      \<le> 2 powi (- 50) * (\<bar>e\<bar> + \<bar>m\<bar> + \<bar>30\<bar> + \<bar>t\<bar>) + 2 powi (- 1072))"
proof -
  note l = mk_bill_lookup[of "3293257227514675 / 4398046511104"
      "3343570879601705 / 35184372088832" 30 "7492160192595891 / 70368744177664"
      "4311404994835251 / 4398046511104"]
  from zero_discount_total_up_to_rounding[OF before_example l(1) l(2) l(4) no_overflow_example]
  obtain a where "calculate_bill_after TarifaConstants 30 Trifasico 1000 1 0 = Inr a"
    "a total = Some (fadd (fadd (fadd (7492160192595891 / 70368744177664) 30)
        (3343570879601705 / 35184372088832)) (3293257227514675 / 4398046511104))"
    "\<bar>fadd (fadd (fadd (7492160192595891 / 70368744177664) 30)
        (3343570879601705 / 35184372088832)) (3293257227514675 / 4398046511104) -
      fadd (fadd (fadd (3293257227514675 / 4398046511104) (3343570879601705 / 35184372088832)) 30)
        (7492160192595891 / 70368744177664)\<bar>
      \<le> 2 powi (- 50) * (\<bar>3293257227514675 / 4398046511104\<bar> +
            \<bar>3343570879601705 / 35184372088832\<bar> + \<bar>30\<bar> +
            \<bar>7492160192595891 / 70368744177664\<bar>) + 2 powi (- 1072)"
    by blast
  then show ?thesis
    using before_example no_overflow_example by blast
qed

end
